theory Spec2Isabelle
  imports Main
begin

section \<open>Python values\<close>

text \<open>
  The program builds and consumes untyped trees of Python values (what a YAML or JSON
  loader returns). A float is carried by its \<open>repr\<close> (the program never computes with
  one); a dict is an association list in insertion order with string keys. A str is the
  list of its code points, and a \<open>char\<close> is a code point below 256: a str with a code
  point from 256 on is not a value of the model (every constant of the program is ASCII).
\<close>

datatype pyval =
    PNone
  | PBool bool
  | PInt int
  | PFloat string
  | PStr string
  | PList "pyval list"
  | PDict "(string \<times> pyval) list"

datatype py_error = TypeError | KeyError | AttributeError | IndexError

text \<open>Sequencing of fallible steps: the first raised error aborts the rest.\<close>

definition ebind :: "'e + 'a \<Rightarrow> ('a \<Rightarrow> 'e + 'b) \<Rightarrow> 'e + 'b" where
  "ebind m f = (case m of Inl e \<Rightarrow> Inl e | Inr v \<Rightarrow> f v)"

fun emap :: "('a \<Rightarrow> 'e + 'b) \<Rightarrow> 'a list \<Rightarrow> 'e + 'b list" where
  "emap f [] = Inr []"
| "emap f (x # xs) = ebind (f x) (\<lambda>y. ebind (emap f xs) (\<lambda>ys. Inr (y # ys)))"

text \<open>\<open>for x in xs: body\<close> with the loop's variables as the state \<open>s\<close>.\<close>

fun efold :: "('a \<Rightarrow> 's \<Rightarrow> 'e + 's) \<Rightarrow> 'a list \<Rightarrow> 's \<Rightarrow> 'e + 's" where
  "efold f [] s = Inr s"
| "efold f (x # xs) s = ebind (f x s) (efold f xs)"

subsection \<open>Formatting: \<open>str\<close> and \<open>repr\<close>, as an f-string field applies them\<close>

definition digit_char :: "nat \<Rightarrow> char" where
  "digit_char d = char_of (48 + d)"

function show_nat :: "nat \<Rightarrow> string" where
  "show_nat n = (if n < 10 then [digit_char n] else show_nat (n div 10) @ [digit_char (n mod 10)])"
  by pat_completeness auto
termination
  by (relation "measure id") auto

definition show_int :: "int \<Rightarrow> string" where
  "show_int i = (if i < 0 then CHR ''-'' # show_nat (nat (- i)) else show_nat (nat i))"

definition hex_char :: "nat \<Rightarrow> char" where
  "hex_char d = (if d < 10 then char_of (48 + d) else char_of (87 + d))"

definition squote :: char where
  "squote = CHR 0x27"

definition dquote :: char where
  "dquote = CHR 0x22"

definition backslash :: char where
  "backslash = CHR 0x5C"

text \<open>
  \<open>repr\<close> of a str: single quotes unless the text has a single quote and no double
  quote; the quote and the backslash are escaped, tab, newline and carriage return are
  written as letters, and every other code point that is not printable as \<open>\xhh\<close>.
  Below 256 the code points that \<open>str.isprintable\<close> refuses are 0 to 31, 127 to 160 and
  173 (the controls, the no-break space and the soft hyphen); the printable ones are
  copied.
\<close>

definition printable :: "char \<Rightarrow> bool" where
  "printable c =
     (\<not> (of_char c < (32::nat) \<or> ((127::nat) \<le> of_char c \<and> of_char c \<le> (160::nat))
         \<or> of_char c = (173::nat)))"

definition repr_char :: "char \<Rightarrow> char \<Rightarrow> string" where
  "repr_char q c =
     (if c = q \<or> c = backslash then [backslash, c]
      else if c = CHR 0x09 then [backslash, CHR ''t'']
      else if c = CHR 0x0A then [backslash, CHR ''n'']
      else if c = CHR 0x0D then [backslash, CHR ''r'']
      else if \<not> printable c then
        [backslash, CHR ''x'', hex_char (of_char c div 16), hex_char (of_char c mod 16)]
      else [c])"

definition repr_str :: "string \<Rightarrow> string" where
  "repr_str s =
     (let q = (if squote \<in> set s \<and> dquote \<notin> set s then dquote else squote)
      in q # concat (map (repr_char q) s) @ [q])"

fun join :: "string \<Rightarrow> string list \<Rightarrow> string" where
  "join sep [] = []"
| "join sep [x] = x"
| "join sep (x # y # ys) = x @ sep @ join sep (y # ys)"

fun py_repr :: "pyval \<Rightarrow> string"
  and py_repr_items :: "(string \<times> pyval) list \<Rightarrow> string list"
  and py_repr_list :: "pyval list \<Rightarrow> string list" where
  "py_repr PNone = ''None''"
| "py_repr (PBool b) = (if b then ''True'' else ''False'')"
| "py_repr (PInt i) = show_int i"
| "py_repr (PFloat r) = r"
| "py_repr (PStr s) = repr_str s"
| "py_repr (PList xs) = ''['' @ join '', '' (py_repr_list xs) @ '']''"
| "py_repr (PDict kvs) = ''{'' @ join '', '' (py_repr_items kvs) @ ''}''"
| "py_repr_items [] = []"
| "py_repr_items ((k, v) # kvs) = (repr_str k @ '': '' @ py_repr v) # py_repr_items kvs"
| "py_repr_list [] = []"
| "py_repr_list (x # xs) = py_repr x # py_repr_list xs"

text \<open>What \<open>f"{x}"\<close> inserts for \<open>x\<close>: \<open>str(x)\<close>, which is \<open>repr(x)\<close> but for a str.\<close>

definition py_str :: "pyval \<Rightarrow> string" where
  "py_str v = (case v of PStr s \<Rightarrow> s | _ \<Rightarrow> py_repr v)"

subsection \<open>Container operations\<close>

text \<open>\<open>d.get(k)\<close> on a dict: \<open>None\<close> for a missing key.\<close>

definition dict_get :: "(string \<times> pyval) list \<Rightarrow> string \<Rightarrow> pyval" where
  "dict_get d k = (case map_of d k of None \<Rightarrow> PNone | Some v \<Rightarrow> v)"

text \<open>\<open>x[k]\<close> with a str key: only a dict accepts it, and a missing key raises.\<close>

definition py_getitem :: "pyval \<Rightarrow> string \<Rightarrow> py_error + pyval" where
  "py_getitem x k =
     (case x of
        PDict d \<Rightarrow> (case map_of d k of None \<Rightarrow> Inl KeyError | Some v \<Rightarrow> Inr v)
      | _ \<Rightarrow> Inl TypeError)"

text \<open>\<open>d[k] = v\<close>: an existing key keeps its place, a new key goes last.\<close>

fun dict_set :: "(string \<times> pyval) list \<Rightarrow> string \<Rightarrow> pyval \<Rightarrow> (string \<times> pyval) list" where
  "dict_set [] k v = [(k, v)]"
| "dict_set ((k', v') # d) k v = (if k' = k then (k, v) # d else (k', v') # dict_set d k v)"

definition py_setitem :: "pyval \<Rightarrow> string \<Rightarrow> pyval \<Rightarrow> py_error + pyval" where
  "py_setitem x k v =
     (case x of
        PDict d \<Rightarrow> Inr (PDict (dict_set d k v))
      | _ \<Rightarrow> Inl TypeError)"

text \<open>\<open>x.append(v)\<close>: only a list has the method.\<close>

definition py_append :: "pyval \<Rightarrow> pyval \<Rightarrow> py_error + pyval" where
  "py_append x v = (case x of PList xs \<Rightarrow> Inr (PList (xs @ [v])) | _ \<Rightarrow> Inl AttributeError)"

text \<open>
  \<open>for x in v\<close>: a list yields its elements, a str its characters, a dict its keys;
  anything else is not iterable.
\<close>

definition py_iter :: "pyval \<Rightarrow> py_error + pyval list" where
  "py_iter v =
     (case v of
        PList xs \<Rightarrow> Inr xs
      | PStr s \<Rightarrow> Inr (map (\<lambda>c. PStr [c]) s)
      | PDict d \<Rightarrow> Inr (map (\<lambda>kv. PStr (fst kv)) d)
      | _ \<Rightarrow> Inl TypeError)"

text \<open>\<open>x.startswith(p)\<close>: a method of str only.\<close>

definition py_startswith :: "pyval \<Rightarrow> string \<Rightarrow> py_error + bool" where
  "py_startswith x p = (case x of PStr s \<Rightarrow> Inr (take (length p) s = p) | _ \<Rightarrow> Inl AttributeError)"

text \<open>
  In-place mutation through a path of keys, \<open>x[k1][k2].append(v)\<close> and
  \<open>x[k1][k] = v\<close>: the object reached is changed, and with it every object on the path,
  which the value model writes back.
\<close>

fun py_append_at :: "pyval \<Rightarrow> string list \<Rightarrow> pyval \<Rightarrow> py_error + pyval" where
  "py_append_at x [] v = py_append x v"
| "py_append_at x (k # ks) v =
     ebind (py_getitem x k) (\<lambda>y. ebind (py_append_at y ks v) (\<lambda>y'. py_setitem x k y'))"

fun py_setitem_at :: "pyval \<Rightarrow> string list \<Rightarrow> string \<Rightarrow> pyval \<Rightarrow> py_error + pyval" where
  "py_setitem_at x [] k' v = py_setitem x k' v"
| "py_setitem_at x (k # ks) k' v =
     ebind (py_getitem x k) (\<lambda>y. ebind (py_setitem_at y ks k' v) (\<lambda>y'. py_setitem x k y'))"

section \<open>Module constants of \<open>vitesscluster_tools\<close>\<close>

definition KUBERNETES_NAMESPACE :: string where
  "KUBERNETES_NAMESPACE = ''paasta-vitessclusters''"

definition IMAGE_TAG :: string where
  "IMAGE_TAG = ''v16.0.3''"

definition VTCTLD_IMAGE :: string where
  "VTCTLD_IMAGE = ''docker-paasta.yelpcorp.com:443/vitess_base:'' @ IMAGE_TAG"

definition VT_GATE_IMAGE :: string where
  "VT_GATE_IMAGE = ''docker-paasta.yelpcorp.com:443/vitess_base:'' @ IMAGE_TAG"

definition VT_TABLET_IMAGE :: string where
  "VT_TABLET_IMAGE = ''docker-paasta.yelpcorp.com:443/vitess_base:'' @ IMAGE_TAG"

definition VT_ADMIN_IMAGE :: string where
  "VT_ADMIN_IMAGE = ''docker-dev.yelpcorp.com/vtadmin:'' @ IMAGE_TAG"

definition TOPO_IMPLEMENTATION :: string where
  "TOPO_IMPLEMENTATION = ''zk2''"

definition TOPO_GLOBAL_ROOT :: string where
  "TOPO_GLOBAL_ROOT = ''/vitess-paasta/global''"

definition SOURCE_DB_HOST :: string where
  "SOURCE_DB_HOST = ''169.254.255.254''"

definition TABLET_TYPES :: "string list" where
  "TABLET_TYPES = [''primary'', ''migration'']"

definition WEB_PORT :: string where
  "WEB_PORT = ''15000''"

definition GRPC_PORT :: string where
  "GRPC_PORT = ''15999''"

text \<open>An environment entry with a literal value, and one that refers to a secret.\<close>

definition env_value :: "string \<Rightarrow> string \<Rightarrow> pyval" where
  "env_value n v = PDict [(''name'', PStr n), (''value'', PStr v)]"

definition env_secret :: "string \<Rightarrow> string \<Rightarrow> string \<Rightarrow> pyval" where
  "env_secret n secret k =
     PDict [(''name'', PStr n),
            (''valueFrom'', PDict [(''secretKeyRef'',
               PDict [(''name'', PStr secret), (''key'', PStr k)])])]"

definition VTCTLD_EXTRA_ENV :: "pyval list" where
  "VTCTLD_EXTRA_ENV =
    [env_value ''WEB_PORT'' WEB_PORT,
     env_value ''GRPC_PORT'' GRPC_PORT,
     env_value ''TOPOLOGY_FLAGS'' []]"

definition VTTABLET_EXTRA_ENV :: "pyval list" where
  "VTTABLET_EXTRA_ENV =
    [env_value ''CELL_TOPOLOGY_SERVERS'' [],
     env_value ''SHARD'' ''0'',
     env_value ''DB'' [],
     env_value ''EXTERNAL_DB'' ''1'',
     env_value ''KEYSPACE'' [],
     env_value ''ROLE'' ''rdonly'',
     env_value ''WEB_PORT'' WEB_PORT,
     env_value ''GRPC_PORT'' GRPC_PORT,
     env_value ''TOPOLOGY_FLAGS'' [],
     env_value ''VAULT_ADDR'' ''https://vault-dre.uswest1-devc.yelpcorp.com:8200'',
     env_secret ''VAULT_ROLEID''
       ''paasta-vitessclusters-secret-vitess-k8s-vault-vttablet-approle-roleid''
       ''vault-vttablet-approle-roleid'',
     env_secret ''VAULT_SECRETID''
       ''paasta-vitessclusters-secret-vitess-k8s-vault-vttablet-approle-secretid''
       ''vault-vttablet-approle-secretid'',
     env_value ''VAULT_CACERT'' ''/etc/vault/all_cas/acm-privateca-uswest1-devc.crt'']"

definition VTGATE_EXTRA_ENV :: "pyval list" where
  "VTGATE_EXTRA_ENV =
    [env_value ''VAULT_ADDR'' ''https://vault-dre.uswest1-devc.yelpcorp.com:8200'',
     env_secret ''VAULT_ROLEID''
       ''paasta-vitessclusters-secret-vitess-k8s-vault-vtgate-approle-roleid''
       ''vault-vtgate-approle-roleid'',
     env_secret ''VAULT_SECRETID''
       ''paasta-vitessclusters-secret-vitess-k8s-vault-vtgate-approle-secretid''
       ''vault-vtgate-approle-secretid'',
     env_value ''VAULT_CACERT'' ''/etc/vault/all_cas/acm-privateca-uswest1-devc.crt'']"

definition VTADMIN_EXTRA_FLAGS :: "(string \<times> pyval) list" where
  "VTADMIN_EXTRA_FLAGS = [(''grpc-allow-reflection'', PStr ''true'')]"

definition VTCTLD_EXTRA_FLAGS :: "(string \<times> pyval) list" where
  "VTCTLD_EXTRA_FLAGS =
    [(''disable_active_reparents'', PStr ''true''),
     (''security_policy'', PStr ''read-only'')]"

definition VTTABLET_EXTRA_FLAGS :: "(string \<times> pyval) list" where
  "VTTABLET_EXTRA_FLAGS =
    [(''log_err_stacks'', PStr ''true''),
     (''grpc_max_message_size'', PStr ''134217728''),
     (''init_tablet_type'', PStr ''replica''),
     (''queryserver-config-schema-reload-time'', PStr ''1800''),
     (''dba_pool_size'', PStr ''4''),
     (''vreplication_heartbeat_update_interval'', PStr ''60''),
     (''vreplication_tablet_type'', PStr ''REPLICA''),
     (''keep_logs'', PStr ''72h''),
     (''enable-lag-throttler'', PStr ''true''),
     (''throttle_check_as_check_self'', PStr ''true''),
     (''throttle_metrics_query'', PStr []),
     (''throttle_metrics_threshold'', PStr []),
     (''db_charset'', PStr ''utf8mb4''),
     (''disable_active_reparents'', PStr ''true'')]"

section \<open>The builders\<close>

definition build_affinity_spec :: "pyval \<Rightarrow> pyval" where
  "build_affinity_spec paasta_pool =
     PDict [(''nodeAffinity'',
       PDict [(''requiredDuringSchedulingIgnoredDuringExecution'',
         PDict [(''nodeSelectorTerms'',
           PList [PDict [(''matchExpressions'',
             PList [PDict [(''key'', PStr ''yelp.com/pool''),
                           (''operator'', PStr ''In''),
                           (''values'', PList [paasta_pool])]])]])])])]"

definition build_extra_labels :: "pyval \<Rightarrow> pyval \<Rightarrow> pyval" where
  "build_extra_labels paasta_pool paasta_cluster =
     PDict [(''yelp.com/owner'', PStr ''dre_mysql_working_hours''),
            (''paasta.yelp.com/cluster'', paasta_cluster),
            (''paasta.yelp.com/pool'', paasta_pool)]"

definition build_extra_env :: "pyval \<Rightarrow> pyval" where
  "build_extra_env paasta_cluster =
     PList [PDict [(''name'', PStr ''PAASTA_POD_IP''),
                   (''valueFrom'', PDict [(''fieldRef'',
                      PDict [(''fieldPath'', PStr ''status.podIP'')])])],
            PDict [(''name'', PStr ''PAASTA_CLUSTER''), (''value'', paasta_cluster)]]"

text \<open>
  One step of a specialisation loop, \<open>if env["name"] == n: env["value"] = v\<close>, on the
  entry \<open>env\<close> of the copied blueprint.
\<close>

definition set_if_name :: "string \<Rightarrow> pyval \<Rightarrow> pyval \<Rightarrow> py_error + pyval" where
  "set_if_name n v env =
     ebind (py_getitem env ''name'')
       (\<lambda>name. if name = PStr n then py_setitem env ''value'' v else Inr env)"

text \<open>
  The body of the loop of \<open>build_cell_config\<close> over the copy of \<open>VTGATE_EXTRA_ENV\<close>: the
  two conditional assignments to the entry \<open>env\<close>, then the \<open>append\<close> to the configuration.
\<close>

definition vtgate_env_entry :: "pyval \<Rightarrow> pyval \<Rightarrow> py_error + pyval" where
  "vtgate_env_entry region env =
     ebind (set_if_name ''VAULT_ADDR''
              (PStr (''https://vault-dre.'' @ py_str region @ ''.yelpcorp.com:8200'')) env) (\<lambda>env.
       set_if_name ''VAULT_CACERT''
         (PStr (''/etc/vault/all_cas/acm-privateca-'' @ py_str region @ ''.crt'')) env)"

definition vtgate_env_step :: "pyval \<Rightarrow> pyval \<Rightarrow> pyval \<Rightarrow> py_error + pyval" where
  "vtgate_env_step region env config =
     ebind (vtgate_env_entry region env) (\<lambda>env.
       py_append_at config [''gateway'', ''extraEnv''] env)"

definition build_cell_config :: "pyval \<Rightarrow> pyval \<Rightarrow> pyval \<Rightarrow> pyval \<Rightarrow> py_error + pyval" where
  "build_cell_config cell paasta_pool paasta_cluster region =
     (let config = PDict
        [(''name'', cell),
         (''gateway'', PDict
           [(''extraFlags'', PDict
              [(''mysql_auth_server_impl'', PStr ''vault''),
               (''mysql_auth_vault_addr'',
                  PStr (''https://vault-dre.'' @ py_str region @ ''.yelpcorp.com:8200'')),
               (''mysql_auth_vault_path'',
                  PStr ''secrets/vitess/vt-gate/vttablet_credentials.json''),
               (''mysql_auth_vault_tls_ca'',
                  PStr (''/etc/vault/all_cas/acm-privateca-'' @ py_str region @ ''.crt'')),
               (''mysql_auth_vault_ttl'', PStr ''60s'')]),
            (''affinity'', build_affinity_spec paasta_pool),
            (''extraLabels'', build_extra_labels paasta_pool paasta_cluster),
            (''extraEnv'', build_extra_env paasta_cluster),
            (''replicas'', PInt 1),
            (''resources'', PDict
              [(''requests'', PDict [(''cpu'', PStr ''100m''), (''memory'', PStr ''256Mi'')]),
               (''limits'', PDict [(''memory'', PStr ''256Mi'')])])])];
          vtgate_extra_env = VTGATE_EXTRA_ENV
      in efold (vtgate_env_step region) vtgate_extra_env config)"

text \<open>
  The body of the loop of \<open>build_vitess_dashboard_config\<close> over the copy of
  \<open>VTCTLD_EXTRA_ENV\<close>.
\<close>

definition vtctld_env_entry :: "pyval \<Rightarrow> pyval \<Rightarrow> py_error + pyval" where
  "vtctld_env_entry zk_address env =
     set_if_name ''TOPOLOGY_FLAGS''
       (PStr (''--topo_implementation '' @ TOPO_IMPLEMENTATION
          @ '' --topo_global_server_address $'' @ py_str zk_address
          @ '' --topo_global_root '' @ TOPO_GLOBAL_ROOT)) env"

definition vtctld_env_step :: "pyval \<Rightarrow> pyval \<Rightarrow> pyval \<Rightarrow> py_error + pyval" where
  "vtctld_env_step zk_address env config =
     ebind (vtctld_env_entry zk_address env) (\<lambda>env.
       py_append_at config [''extraEnv''] env)"

definition build_vitess_dashboard_config ::
  "pyval \<Rightarrow> pyval \<Rightarrow> pyval \<Rightarrow> pyval \<Rightarrow> py_error + pyval" where
  "build_vitess_dashboard_config cells paasta_pool paasta_cluster zk_address =
     (let config = PDict
        [(''cells'', cells),
         (''affinity'', build_affinity_spec paasta_pool),
         (''extraLabels'', build_extra_labels paasta_pool paasta_cluster),
         (''extraEnv'', build_extra_env paasta_cluster),
         (''extraFlags'', PDict VTCTLD_EXTRA_FLAGS),
         (''replicas'', PInt 1),
         (''resources'', PDict
           [(''requests'', PDict [(''cpu'', PStr ''100m''), (''memory'', PStr ''128Mi'')]),
            (''limits'', PDict [(''memory'', PStr ''128Mi'')])])];
          vtctld_extra_env = VTCTLD_EXTRA_ENV
      in efold (vtctld_env_step zk_address) vtctld_extra_env config)"

definition build_vt_admin_config :: "pyval \<Rightarrow> pyval \<Rightarrow> pyval \<Rightarrow> pyval" where
  "build_vt_admin_config cells paasta_pool paasta_cluster =
     PDict
       [(''cells'', cells),
        (''apiAddresses'', PList [PStr ''http://localhost:15000'']),
        (''affinity'', build_affinity_spec paasta_pool),
        (''extraLabels'', build_extra_labels paasta_pool paasta_cluster),
        (''extraFlags'', PDict VTADMIN_EXTRA_FLAGS),
        (''extraEnv'', build_extra_env paasta_cluster),
        (''replicas'', PInt 1),
        (''readOnly'', PBool False),
        (''apiResources'', PDict
          [(''requests'', PDict [(''cpu'', PStr ''100m''), (''memory'', PStr ''128Mi'')]),
           (''limits'', PDict [(''memory'', PStr ''128Mi'')])]),
        (''webResources'', PDict
          [(''requests'', PDict [(''cpu'', PStr ''100m''), (''memory'', PStr ''128Mi'')]),
           (''limits'', PDict [(''memory'', PStr ''128Mi'')])])]"

text \<open>
  The body of the loop of \<open>build_tablet_pool_config\<close> over the copy of
  \<open>VTTABLET_EXTRA_ENV\<close>: the six conditional assignments, then the \<open>append\<close>.
\<close>

definition vttablet_env_entry ::
  "pyval \<Rightarrow> pyval \<Rightarrow> pyval \<Rightarrow> pyval \<Rightarrow> pyval \<Rightarrow> py_error + pyval" where
  "vttablet_env_entry zk_address db_name keyspace region env =
     ebind (set_if_name ''TOPOLOGY_FLAGS''
              (PStr (''--topo_implementation '' @ TOPO_IMPLEMENTATION
                 @ '' --topo_global_server_address $'' @ py_str zk_address
                 @ '' --topo_global_root '' @ TOPO_GLOBAL_ROOT)) env) (\<lambda>env.
     ebind (set_if_name ''CELL_TOPOLOGY_SERVERS'' zk_address env) (\<lambda>env.
     ebind (set_if_name ''DB'' db_name env) (\<lambda>env.
     ebind (set_if_name ''KEYSPACE'' keyspace env) (\<lambda>env.
     ebind (set_if_name ''VAULT_ADDR''
              (PStr (''https://vault-dre.'' @ py_str region @ ''.yelpcorp.com:8200'')) env) (\<lambda>env.
       set_if_name ''VAULT_CACERT''
         (PStr (''/etc/vault/all_cas/acm-privateca-'' @ py_str region @ ''.crt'')) env)))))"

definition vttablet_env_step ::
  "pyval \<Rightarrow> pyval \<Rightarrow> pyval \<Rightarrow> pyval \<Rightarrow> pyval \<Rightarrow> pyval \<Rightarrow> py_error + pyval" where
  "vttablet_env_step zk_address db_name keyspace region env config =
     ebind (vttablet_env_entry zk_address db_name keyspace region env) (\<lambda>env.
       py_append_at config [''extraEnv''] env)"

definition build_tablet_pool_config ::
  "pyval \<Rightarrow> pyval \<Rightarrow> pyval \<Rightarrow> pyval \<Rightarrow> pyval \<Rightarrow> pyval \<Rightarrow> pyval \<Rightarrow> pyval \<Rightarrow> pyval \<Rightarrow> pyval \<Rightarrow> pyval
     \<Rightarrow> py_error + pyval" where
  "build_tablet_pool_config cell db_name keyspace port paasta_pool paasta_cluster zk_address
       throttle_query_table throttle_metrics_threshold tablet_type region =
     (let vttablet_extra_flags = VTTABLET_EXTRA_FLAGS;
          vttablet_extra_flags = dict_set vttablet_extra_flags ''throttle_metrics_query''
            (PStr (''select max_replication_delay from max_mysql_replication_delay.''
               @ py_str throttle_query_table @ '';''));
          vttablet_extra_flags = dict_set vttablet_extra_flags ''throttle_metrics_threshold''
            throttle_metrics_threshold;
          vttablet_extra_flags = dict_set vttablet_extra_flags ''enforce-tableacl-config''
            (PStr ''true'');
          vttablet_extra_flags = dict_set vttablet_extra_flags ''table-acl-config''
            (PStr (''/etc/vitess_keyspace_acls/acls_for_'' @ py_str db_name @ ''.json''));
          vttablet_extra_flags = dict_set vttablet_extra_flags ''table-acl-config-reload-interval''
            (PStr ''60s'');
          vttablet_extra_flags = dict_set vttablet_extra_flags ''queryserver-config-strict-table-acl''
            (PStr ''true'');
          vttablet_extra_flags = dict_set vttablet_extra_flags ''db-credentials-server''
            (PStr ''vault'');
          vttablet_extra_flags = dict_set vttablet_extra_flags ''db-credentials-vault-addr''
            (PStr (''https://vault-dre.'' @ py_str region @ ''.yelpcorp.com:8200''));
          vttablet_extra_flags = dict_set vttablet_extra_flags ''db-credentials-vault-path''
            (PStr ''secrets/vitess/vt-tablet/vttablet_credentials.json'');
          vttablet_extra_flags = dict_set vttablet_extra_flags ''db-credentials-vault-tls-ca''
            (PStr (''/etc/vault/all_cas/acm-privateca-'' @ py_str region @ ''.crt''));
          vttablet_extra_flags = dict_set vttablet_extra_flags ''db-credentials-vault-ttl''
            (PStr ''60s'');
          type = (if tablet_type = PStr ''primary'' then ''externalmaster'' else ''externalreplica'');
          config = PDict
            [(''cell'', cell),
             (''name'', PStr (py_str db_name @ ''_'' @ py_str tablet_type)),
             (''type'', PStr type),
             (''affinity'', build_affinity_spec paasta_pool),
             (''extraLabels'', build_extra_labels paasta_pool paasta_cluster),
             (''extraEnv'', build_extra_env paasta_cluster),
             (''extraVolumeMounts'', PList
               [PDict [(''mountPath'', PStr ''/etc/vault/all_cas''),
                       (''name'', PStr ''vault-secrets''),
                       (''readOnly'', PBool True)],
                PDict [(''mountPath'', PStr ''/etc/vitess_keyspace_acls''),
                       (''name'', PStr ''acls''),
                       (''readOnly'', PBool True)],
                PDict [(''mountPath'', PStr ''etc/credentials.yaml''),
                       (''name'', PStr ''vttablet-fake-credentials''),
                       (''readOnly'', PBool True)],
                PDict [(''mountPath'', PStr ''/etc/init_db.sql''),
                       (''name'', PStr ''keyspace-fake-init-script''),
                       (''readOnly'', PBool True)]]),
             (''extraVolumes'', PList
               [PDict [(''name'', PStr ''vault-secrets''),
                       (''hostPath'', PDict [(''path'', PStr ''/nail/etc/vault/all_cas'')])],
                PDict [(''name'', PStr ''acls''),
                       (''hostPath'', PDict [(''path'', PStr ''/nail/srv/configs/vitess_keyspace_acls'')])],
                PDict [(''name'', PStr ''vttablet-fake-credentials''),
                       (''hostPath'', PDict [(''path'', PStr ''/dev/null'')])],
                PDict [(''name'', PStr ''keyspace-fake-init-script''),
                       (''hostPath'', PDict [(''path'', PStr ''/dev/null'')])]]),
             (''replicas'', PInt 1),
             (''vttablet'', PDict
               [(''extraFlags'', PDict vttablet_extra_flags),
                (''resources'', PDict
                  [(''requests'', PDict [(''cpu'', PStr ''100m''), (''memory'', PStr ''256Mi'')]),
                   (''limits'', PDict [(''memory'', PStr ''256Mi'')])])]),
             (''externalDatastore'', PDict
               [(''database'', db_name),
                (''host'', PStr SOURCE_DB_HOST),
                (''port'', port),
                (''user'', PStr ''vt_app''),
                (''credentialsSecret'', PDict
                  [(''key'', PStr ''/etc/credentials.yaml''),
                   (''volumeName'', PStr ''vttablet-fake-credentials'')])]),
             (''dataVolumeClaimTemplate'', PDict
               [(''accessModes'', PList [PStr ''ReadWriteOnce'']),
                (''resources'', PDict [(''requests'', PDict [(''storage'', PStr ''10Gi'')])]),
                (''storageClassName'', PStr ''ebs-csi-gp3'')])];
          vttablet_extra_env = VTTABLET_EXTRA_ENV
      in ebind (efold (vttablet_env_step zk_address db_name keyspace region)
                  vttablet_extra_env config) (\<lambda>config.
           py_setitem_at config [''extraLabels''] ''tablet_type''
             (PStr (py_str db_name @ ''_'' @ py_str tablet_type))))"

section \<open>The port-mapping collaborator\<close>

text \<open>
  \<open>load_system_paasta_config().get_mysql_port_mappings()\<close> is not part of this module: the
  system configuration is a parameter of the model, a table from cluster name to the
  ports of its tablet roles, with a count of the queries made so far.
\<close>

record system_paasta_config =
  port_mappings_table :: "(string \<times> (string \<times> int) list) list"
  port_mapping_queries :: nat

definition get_mysql_port_mappings ::
  "system_paasta_config \<Rightarrow> (string \<times> (string \<times> int) list) list \<times> system_paasta_config" where
  "get_mysql_port_mappings w =
     (port_mappings_table w, w\<lparr>port_mapping_queries := Suc (port_mapping_queries w)\<rparr>)"

text \<open>
  \<open>mysql_port_mappings[cluster]\<close>: the keys of the table are strs, so no other hashable
  value is a key, and a list or a dict is not hashable.
\<close>

definition port_mappings_getitem ::
  "(string \<times> (string \<times> int) list) list \<Rightarrow> pyval \<Rightarrow> py_error + (string \<times> int) list" where
  "port_mappings_getitem m cluster =
     (case cluster of
        PStr c \<Rightarrow> (case map_of m c of None \<Rightarrow> Inl KeyError | Some roles \<Rightarrow> Inr roles)
      | PList xs \<Rightarrow> Inl TypeError
      | PDict d \<Rightarrow> Inl TypeError
      | _ \<Rightarrow> Inl KeyError)"

section \<open>Keyspaces\<close>

text \<open>
  The throttling parameters of a tablet type in a cluster (the \<open>if\<close> of
  \<open>build_keyspaces_config\<close> that sets \<open>throttle_query_table\<close> and
  \<open>throttle_metrics_threshold\<close>).
\<close>

definition throttle_policy :: "string \<Rightarrow> pyval \<Rightarrow> py_error + string \<times> string" where
  "throttle_policy tablet_type cluster =
     (if tablet_type = ''migration'' then Inr (''migration_replication_delay'', ''7200'')
      else
        ebind (py_startswith cluster ''refresh'') (\<lambda>r.
        ebind (if r then Inr True else py_startswith cluster ''sanitized'') (\<lambda>rs.
          Inr (''read_replication_delay'', if rs then ''30'' else ''3''))))"

text \<open>The body of \<open>for tablet_type in TABLET_TYPES\<close>, on the list \<open>tablet_pools\<close>.\<close>

definition tablet_type_step ::
  "(string \<times> (string \<times> int) list) list \<Rightarrow> pyval \<Rightarrow> pyval \<Rightarrow> pyval \<Rightarrow> pyval \<Rightarrow> pyval \<Rightarrow> pyval
     \<Rightarrow> pyval \<Rightarrow> pyval \<Rightarrow> string \<Rightarrow> pyval list \<Rightarrow> py_error + pyval list" where
  "tablet_type_step mysql_port_mappings cluster cells db_name keyspace paasta_pool paasta_cluster
       zk_address region tablet_type tablet_pools =
     ebind (port_mappings_getitem mysql_port_mappings cluster) (\<lambda>roles.
       case map_of roles tablet_type of
         None \<Rightarrow> Inr tablet_pools
       | Some port \<Rightarrow>
           ebind (throttle_policy tablet_type cluster) (\<lambda>(throttle_query_table, throttle_metrics_threshold).
           ebind (py_iter cells) (\<lambda>cs.
           ebind (emap (\<lambda>cell.
                    build_tablet_pool_config cell db_name keyspace (PInt port) paasta_pool
                      paasta_cluster zk_address (PStr throttle_query_table)
                      (PStr throttle_metrics_threshold) (PStr tablet_type) region) cs) (\<lambda>new.
             Inr (tablet_pools @ new)))))"

text \<open>\<open>for keyspace_config in keyspaces\<close>, on the list \<open>config\<close> and the system configuration.\<close>

fun keyspaces_loop ::
  "pyval list \<Rightarrow> pyval \<Rightarrow> pyval \<Rightarrow> pyval \<Rightarrow> pyval \<Rightarrow> pyval \<Rightarrow> pyval list \<Rightarrow> system_paasta_config
     \<Rightarrow> (py_error + pyval list) \<times> system_paasta_config" where
  "keyspaces_loop [] cells paasta_pool paasta_cluster zk_address region config w = (Inr config, w)"
| "keyspaces_loop (keyspace_config # rest) cells paasta_pool paasta_cluster zk_address region config w =
     (case py_getitem keyspace_config ''keyspace'' of Inl e \<Rightarrow> (Inl e, w) | Inr keyspace \<Rightarrow>
     (case py_getitem keyspace_config ''keyspace'' of Inl e \<Rightarrow> (Inl e, w) | Inr db_name \<Rightarrow>
     (case py_getitem keyspace_config ''cluster'' of Inl e \<Rightarrow> (Inl e, w) | Inr cluster \<Rightarrow>
     (case get_mysql_port_mappings w of (mysql_port_mappings, w) \<Rightarrow>
     (case efold (tablet_type_step mysql_port_mappings cluster cells db_name keyspace paasta_pool
                    paasta_cluster zk_address region) TABLET_TYPES [] of
        Inl e \<Rightarrow> (Inl e, w)
      | Inr tablet_pools \<Rightarrow>
          keyspaces_loop rest cells paasta_pool paasta_cluster zk_address region
            (config @
              [PDict
                [(''name'', keyspace),
                 (''durabilityPolicy'', PStr ''none''),
                 (''turndownPolicy'', PStr ''Immediate''),
                 (''partitionings'', PList
                   [PDict [(''equal'', PDict
                     [(''parts'', PInt 1),
                      (''shardTemplate'', PDict
                        [(''databaseInitScriptSecret'', PDict
                           [(''volumeName'', PStr ''keyspace-fake-init-script''),
                            (''key'', PStr ''/etc/init_db.sql'')]),
                         (''tabletPools'', PList tablet_pools)])])]])]]) w)))))"

definition build_keyspaces_config ::
  "pyval \<Rightarrow> pyval \<Rightarrow> pyval \<Rightarrow> pyval \<Rightarrow> pyval \<Rightarrow> pyval \<Rightarrow> system_paasta_config
     \<Rightarrow> (py_error + pyval) \<times> system_paasta_config" where
  "build_keyspaces_config cells keyspaces paasta_pool paasta_cluster zk_address region w =
     (case py_iter keyspaces of
        Inl e \<Rightarrow> (Inl e, w)
      | Inr ks \<Rightarrow>
          (case keyspaces_loop ks cells paasta_pool paasta_cluster zk_address region [] w of
             (Inl e, w') \<Rightarrow> (Inl e, w')
           | (Inr config, w') \<Rightarrow> (Inr (PList config), w')))"

section \<open>The instance configuration\<close>

definition generate_vitess_instance_config ::
  "(string \<times> pyval) list \<Rightarrow> system_paasta_config \<Rightarrow> (py_error + pyval) \<times> system_paasta_config" where
  "generate_vitess_instance_config instance_config w =
     (let cpus = dict_get instance_config ''cpus'';
          mem = dict_get instance_config ''mem'';
          deploy_group = dict_get instance_config ''deploy_group'';
          zk_address = dict_get instance_config ''zk_address'';
          paasta_pool = dict_get instance_config ''paasta_pool'';
          paasta_cluster = dict_get instance_config ''paasta_cluster'';
          cells = dict_get instance_config ''cells'';
          keyspaces = dict_get instance_config ''keyspaces'';
          region = dict_get instance_config ''region''
      in
      (case ebind (py_iter cells)
             (emap (\<lambda>cell. build_cell_config cell paasta_pool paasta_cluster region)) of
        Inl e \<Rightarrow> (Inl e, w)
      | Inr cell_configs \<Rightarrow>
      (case build_vitess_dashboard_config cells paasta_pool paasta_cluster zk_address of
        Inl e \<Rightarrow> (Inl e, w)
      | Inr vitess_dashboard \<Rightarrow>
      (case build_keyspaces_config cells keyspaces paasta_pool paasta_cluster zk_address region w of
        (Inl e, w') \<Rightarrow> (Inl e, w')
      | (Inr keyspaces_config, w') \<Rightarrow>
          (Inr (PDict
            [(''namespace'', PStr ''paasta-vitessclusters''),
             (''cpus'', cpus),
             (''mem'', mem),
             (''min_instances'', PInt 1),
             (''max_instances'', PInt 1),
             (''deploy_group'', deploy_group),
             (''autoscaling'', PDict [(''setpoint'', PFloat ''0.7'')]),
             (''env'', PDict
               [(''OPERATOR_NAME'', PStr ''vitess-operator''),
                (''POD_NAME'', PStr ''vitess-k8s''),
                (''PS_OPERATOR_POD_NAME'', PStr ''vitess-k8s''),
                (''PS_OPERATOR_POD_NAMESPACE'', PStr ''paasta-vitessclusters''),
                (''WATCH_NAMESPACE'', PStr ''paasta-vitessclusters'')]),
             (''healthcheck_grace_period_seconds'', PInt 60),
             (''healthcheck_mode'', PStr ''cmd''),
             (''healthcheck_cmd'', PStr ''true''),
             (''images'', PDict
               [(''vtctld'', PStr VTCTLD_IMAGE),
                (''vtadmin'', PStr VT_ADMIN_IMAGE),
                (''vtgate'', PStr VT_GATE_IMAGE),
                (''vttablet'', PStr VT_TABLET_IMAGE)]),
             (''globalLockserver'', PDict
               [(''external'', PDict
                 [(''implementation'', PStr TOPO_IMPLEMENTATION),
                  (''address'', zk_address),
                  (''rootPath'', PStr TOPO_GLOBAL_ROOT)])]),
             (''cells'', PList cell_configs),
             (''vitessDashboard'', vitess_dashboard),
             (''vtadmin'', build_vt_admin_config cells paasta_pool paasta_cluster),
             (''keyspaces'', keyspaces_config),
             (''updateStrategy'', PDict [(''type'', PStr ''Immediate'')])]), w')))))"

section \<open>Reading a configuration tree\<close>

text \<open>
  What a consumer of the generated tree does to inspect it: follow a path of dict keys
  and list indices, and pick the environment entries of a given name.
\<close>

datatype sel = Key string | Idx nat

definition py_index :: "pyval \<Rightarrow> nat \<Rightarrow> py_error + pyval" where
  "py_index x i =
     (case x of
        PList xs \<Rightarrow> (if i < length xs then Inr (xs ! i) else Inl IndexError)
      | PDict d \<Rightarrow> Inl KeyError
      | _ \<Rightarrow> Inl TypeError)"

fun py_at :: "pyval \<Rightarrow> sel list \<Rightarrow> py_error + pyval" where
  "py_at x [] = Inr x"
| "py_at x (Key k # p) = ebind (py_getitem x k) (\<lambda>y. py_at y p)"
| "py_at x (Idx i # p) = ebind (py_index x i) (\<lambda>y. py_at y p)"

definition env_named :: "string \<Rightarrow> pyval list \<Rightarrow> pyval list" where
  "env_named n envs = filter (\<lambda>env. py_getitem env ''name'' = Inr (PStr n)) envs"

text \<open>The tablet pools of a keyspace specification, where the instance configuration puts them.\<close>

definition tablet_pools_path :: "sel list" where
  "tablet_pools_path =
     [Key ''partitionings'', Idx 0, Key ''equal'', Key ''shardTemplate'', Key ''tabletPools'']"

text \<open>
  A keyspace descriptor of the instance description: a dict with a \<open>keyspace\<close> and the
  name of its source \<open>cluster\<close>.
\<close>

definition descriptor :: "pyval \<Rightarrow> (pyval \<times> string) option" where
  "descriptor kc =
     (case py_getitem kc ''keyspace'' of
        Inl e \<Rightarrow> None
      | Inr n \<Rightarrow>
          (case py_getitem kc ''cluster'' of
             Inr (PStr c) \<Rightarrow> Some (n, c)
           | _ \<Rightarrow> None))"

text \<open>An environment entry of a blueprint: a dict whose first key is its \<open>name\<close>, a str.\<close>

fun is_entry :: "pyval \<Rightarrow> bool" where
  "is_entry (PDict ((k, PStr m) # rest)) = (k = ''name'')"
| "is_entry _ = False"

section \<open>What the fan-out is expected to produce\<close>

text \<open>
  The tablet pools of one keyspace, written as a comprehension: for each tablet type
  that the cluster's port mapping \<open>roles\<close> has, in the order of \<open>TABLET_TYPES\<close>, one pool
  per cell, in the order of the cells. The lemmas on \<open>build_keyspaces_config\<close> show that
  the loops compute exactly this.
\<close>

definition role_pools ::
  "(string \<times> int) list \<Rightarrow> string \<Rightarrow> pyval list \<Rightarrow> pyval \<Rightarrow> pyval \<Rightarrow> pyval \<Rightarrow> pyval \<Rightarrow> pyval
     \<Rightarrow> string \<Rightarrow> pyval list" where
  "role_pools roles c cs n paasta_pool paasta_cluster zk_address region tablet_type =
     (case map_of roles tablet_type of
        None \<Rightarrow> []
      | Some port \<Rightarrow>
          map (\<lambda>cell. projr (build_tablet_pool_config cell n n (PInt port) paasta_pool
                  paasta_cluster zk_address
                  (PStr (fst (projr (throttle_policy tablet_type (PStr c)))))
                  (PStr (snd (projr (throttle_policy tablet_type (PStr c)))))
                  (PStr tablet_type) region)) cs)"

definition keyspace_pools ::
  "(string \<times> (string \<times> int) list) list \<Rightarrow> string \<Rightarrow> pyval list \<Rightarrow> pyval \<Rightarrow> pyval \<Rightarrow> pyval
     \<Rightarrow> pyval \<Rightarrow> pyval \<Rightarrow> pyval list" where
  "keyspace_pools m c cs n paasta_pool paasta_cluster zk_address region =
     concat (map (role_pools (case map_of m c of None \<Rightarrow> [] | Some roles \<Rightarrow> roles)
                    c cs n paasta_pool paasta_cluster zk_address region) TABLET_TYPES)"

text \<open>The specification of a keyspace around its tablet pools.\<close>

definition keyspace_spec :: "pyval \<Rightarrow> pyval list \<Rightarrow> pyval" where
  "keyspace_spec n pools =
     PDict
       [(''name'', n),
        (''durabilityPolicy'', PStr ''none''),
        (''turndownPolicy'', PStr ''Immediate''),
        (''partitionings'', PList
          [PDict [(''equal'', PDict
            [(''parts'', PInt 1),
             (''shardTemplate'', PDict
               [(''databaseInitScriptSecret'', PDict
                  [(''volumeName'', PStr ''keyspace-fake-init-script''),
                   (''key'', PStr ''/etc/init_db.sql'')]),
                (''tabletPools'', PList pools)])])]])]"

section \<open>Basic facts\<close>

lemma ebind_Inr: "ebind (Inr v) f = f v"
  by (simp add: ebind_def)

lemma ebind_Inl: "ebind (Inl e) f = Inl e"
  by (simp add: ebind_def)

lemma emap_total:
  "(\<And>x. x \<in> set xs \<Longrightarrow> \<exists>y. f x = Inr y) \<Longrightarrow> emap f xs = Inr (map (\<lambda>x. projr (f x)) xs)"
proof (induction xs)
  case Nil
  show ?case by simp
next
  case (Cons x xs)
  from Cons.prems[of x] obtain y where y: "f x = Inr y" by auto
  have "emap f xs = Inr (map (\<lambda>x. projr (f x)) xs)"
    by (rule Cons.IH) (simp add: Cons.prems)
  with y show ?case by (simp add: ebind_Inr)
qed

lemma map_of_dict_set: "map_of (dict_set d k v) = (map_of d)(k \<mapsto> v)"
  by (induction d) auto

lemma dict_set_twice: "dict_set (dict_set d k v) k v' = dict_set d k v'"
  by (induction d) auto

lemma dict_set_same: "map_of d k = Some v \<Longrightarrow> dict_set d k v = d"
  by (induction d) (auto split: if_splits)

lemma set_if_name_entry:
  "set_if_name n v (PDict ((''name'', PStr m) # rest)) =
     Inr (PDict ((''name'', PStr m) # (if m = n then dict_set rest ''value'' v else rest)))"
  by (simp add: set_if_name_def ebind_def py_getitem_def py_setitem_def)

lemma append_at_key:
  "map_of d k = Some (PList xs) \<Longrightarrow>
   py_append_at (PDict d) [k] env = Inr (PDict (dict_set d k (PList (xs @ [env]))))"
  by (simp add: py_getitem_def py_append_def py_setitem_def ebind_def)

lemma append_at_key2:
  "map_of d k = Some (PDict g) \<Longrightarrow> map_of g k' = Some (PList xs) \<Longrightarrow>
   py_append_at (PDict d) [k, k'] env
     = Inr (PDict (dict_set d k (PDict (dict_set g k' (PList (xs @ [env]))))))"
  by (simp add: py_getitem_def py_append_def py_setitem_def ebind_def)

lemma setitem_at_key:
  "map_of d p = Some (PDict l) \<Longrightarrow>
   py_setitem_at (PDict d) [p] k v = Inr (PDict (dict_set d p (PDict (dict_set l k v))))"
  by (simp add: py_getitem_def py_setitem_def ebind_def)

lemma is_entryE: "is_entry env \<Longrightarrow> \<exists>m rest. env = PDict ((''name'', PStr m) # rest)"
  by (cases env rule: is_entry.cases) auto

text \<open>
  A specialisation loop over a blueprint appends, in order, the specialised copy of each
  entry to the list under the key \<open>k\<close>, and changes nothing else of the configuration.
\<close>

lemma efold_append_entries:
  assumes "\<And>env. env \<in> set envs \<Longrightarrow> \<exists>e. g env = Inr e"
    and "map_of d k = Some (PList xs)"
  shows "efold (\<lambda>env config. ebind (g env) (\<lambda>e. py_append_at config [k] e)) envs (PDict d)
           = Inr (PDict (dict_set d k (PList (xs @ map (\<lambda>env. projr (g env)) envs))))"
  using assms
proof (induction envs arbitrary: d xs)
  case Nil
  then show ?case by (simp add: dict_set_same)
next
  case (Cons env envs)
  from Cons.prems(1)[of env] obtain e where e: "g env = Inr e" by auto
  have m: "map_of (dict_set d k (PList (xs @ [e]))) k = Some (PList (xs @ [e]))"
    by (simp add: map_of_dict_set)
  have "efold (\<lambda>env config. ebind (g env) (\<lambda>e. py_append_at config [k] e)) envs
          (PDict (dict_set d k (PList (xs @ [e]))))
        = Inr (PDict (dict_set (dict_set d k (PList (xs @ [e]))) k
                 (PList ((xs @ [e]) @ map (\<lambda>env. projr (g env)) envs))))"
    by (rule Cons.IH[OF _ m]) (simp add: Cons.prems(1))
  then show ?case
    by (simp add: e ebind_Inr append_at_key[OF Cons.prems(2)] dict_set_twice
        del: py_append_at.simps)
qed

lemma efold_append_entries2:
  assumes "\<And>env. env \<in> set envs \<Longrightarrow> \<exists>e. g env = Inr e"
    and "map_of d k = Some (PDict gw)" and "map_of gw k' = Some (PList xs)"
  shows "efold (\<lambda>env config. ebind (g env) (\<lambda>e. py_append_at config [k, k'] e)) envs (PDict d)
           = Inr (PDict (dict_set d k (PDict (dict_set gw k'
                   (PList (xs @ map (\<lambda>env. projr (g env)) envs))))))"
  using assms
proof (induction envs arbitrary: d gw xs)
  case Nil
  then show ?case by (simp add: dict_set_same)
next
  case (Cons env envs)
  from Cons.prems(1)[of env] obtain e where e: "g env = Inr e" by auto
  let ?gw = "dict_set gw k' (PList (xs @ [e]))"
  have m: "map_of (dict_set d k (PDict ?gw)) k = Some (PDict ?gw)"
    by (simp add: map_of_dict_set)
  have m': "map_of ?gw k' = Some (PList (xs @ [e]))"
    by (simp add: map_of_dict_set)
  have "efold (\<lambda>env config. ebind (g env) (\<lambda>e. py_append_at config [k, k'] e)) envs
          (PDict (dict_set d k (PDict ?gw)))
        = Inr (PDict (dict_set (dict_set d k (PDict ?gw)) k (PDict (dict_set ?gw k'
                 (PList ((xs @ [e]) @ map (\<lambda>env. projr (g env)) envs))))))"
    by (rule Cons.IH[OF _ m m']) (simp add: Cons.prems(1))
  then show ?case
    by (simp add: e ebind_Inr append_at_key2[OF Cons.prems(2,3)] dict_set_twice
        del: py_append_at.simps)
qed

section \<open>Tablet pools\<close>

lemmas lookup_simps = map_of.simps fst_conv snd_conv fun_upd_apply list.inject char.inject
  list.distinct simp_thms if_True if_False option.inject refl

lemma VTTABLET_entries: "list_all is_entry VTTABLET_EXTRA_ENV"
  by (simp add: VTTABLET_EXTRA_ENV_def env_value_def env_secret_def)

lemma vttablet_env_entry_total:
  assumes "is_entry env"
  shows "\<exists>e. vttablet_env_entry zk db ks region env = Inr e"
proof -
  from is_entryE[OF assms] obtain m rest where "env = PDict ((''name'', PStr m) # rest)"
    by blast
  then show ?thesis
    by (simp add: vttablet_env_entry_def set_if_name_entry ebind_Inr
        del: dict_set.simps split del: if_split)
qed

lemma vttablet_env_step_eq:
  "vttablet_env_step zk db ks region
     = (\<lambda>env config. ebind (vttablet_env_entry zk db ks region env)
                        (\<lambda>e. py_append_at config [''extraEnv''] e))"
  by (intro ext) (simp add: vttablet_env_step_def)

text \<open>
  The two last steps of \<open>build_tablet_pool_config\<close>, on any configuration \<open>d\<close> that has the
  environment and the labels of the PaaSTA contract: the loop fills \<open>extraEnv\<close>, the
  assignment adds the \<open>tablet_type\<close> label.
\<close>

lemma tablet_tail:
  assumes e: "map_of d ''extraEnv'' = Some (build_extra_env pc)"
    and l: "map_of d ''extraLabels'' = Some (build_extra_labels pool pc)"
  shows "ebind (efold (vttablet_env_step zk db ks region) VTTABLET_EXTRA_ENV (PDict d))
              (\<lambda>config. py_setitem_at config [''extraLabels''] ''tablet_type'' v)
         = Inr (PDict (dict_set
                  (dict_set d ''extraEnv''
                     (PList ([PDict [(''name'', PStr ''PAASTA_POD_IP''),
                                     (''valueFrom'', PDict [(''fieldRef'',
                                        PDict [(''fieldPath'', PStr ''status.podIP'')])])],
                              PDict [(''name'', PStr ''PAASTA_CLUSTER''), (''value'', pc)]]
                        @ map (\<lambda>env. projr (vttablet_env_entry zk db ks region env))
                            VTTABLET_EXTRA_ENV)))
                  ''extraLabels''
                  (PDict [(''yelp.com/owner'', PStr ''dre_mysql_working_hours''),
                          (''paasta.yelp.com/cluster'', pc),
                          (''paasta.yelp.com/pool'', pool),
                          (''tablet_type'', v)])))"
proof -
  have xs: "map_of d ''extraEnv''
              = Some (PList [PDict [(''name'', PStr ''PAASTA_POD_IP''),
                                     (''valueFrom'', PDict [(''fieldRef'',
                                        PDict [(''fieldPath'', PStr ''status.podIP'')])])],
                              PDict [(''name'', PStr ''PAASTA_CLUSTER''), (''value'', pc)]])"
    using e by (simp add: build_extra_env_def)
  have t: "\<And>env. env \<in> set VTTABLET_EXTRA_ENV
             \<Longrightarrow> \<exists>e. vttablet_env_entry zk db ks region env = Inr e"
    using VTTABLET_entries by (auto simp: list_all_iff intro: vttablet_env_entry_total)
  have f: "efold (vttablet_env_step zk db ks region) VTTABLET_EXTRA_ENV (PDict d)
             = Inr (PDict (dict_set d ''extraEnv''
                 (PList ([PDict [(''name'', PStr ''PAASTA_POD_IP''),
                                     (''valueFrom'', PDict [(''fieldRef'',
                                        PDict [(''fieldPath'', PStr ''status.podIP'')])])],
                              PDict [(''name'', PStr ''PAASTA_CLUSTER''), (''value'', pc)]]
                        @ map (\<lambda>env. projr (vttablet_env_entry zk db ks region env))
                            VTTABLET_EXTRA_ENV))))"
    unfolding vttablet_env_step_eq by (rule efold_append_entries[OF t xs])
  have l': "map_of (dict_set d ''extraEnv'' X) ''extraLabels''
              = Some (PDict [(''yelp.com/owner'', PStr ''dre_mysql_working_hours''),
                       (''paasta.yelp.com/cluster'', pc),
                       (''paasta.yelp.com/pool'', pool)])" for X
    using l by (simp add: map_of_dict_set build_extra_labels_def)
  show ?thesis
    by (simp only: f ebind_Inr setitem_at_key[OF l'] dict_set.simps list.inject char.inject
        prod.inject simp_thms if_False if_True list.distinct)
qed

lemma tablet_tail_get:
  assumes e: "map_of d ''extraEnv'' = Some (build_extra_env pc)"
    and l: "map_of d ''extraLabels'' = Some (build_extra_labels pool pc)"
    and k: "map_of d k = Some x" "k \<noteq> ''extraEnv''" "k \<noteq> ''extraLabels''"
  shows "ebind (ebind (efold (vttablet_env_step zk db ks region) VTTABLET_EXTRA_ENV (PDict d))
              (\<lambda>config. py_setitem_at config [''extraLabels''] ''tablet_type'' v))
           (\<lambda>c. py_getitem c k) = Inr x"
  unfolding tablet_tail[OF e l]
  by (simp add: ebind_Inr py_getitem_def map_of_dict_set k del: dict_set.simps)

lemma tablet_tail_labels:
  assumes e: "map_of d ''extraEnv'' = Some (build_extra_env pc)"
    and l: "map_of d ''extraLabels'' = Some (build_extra_labels pool pc)"
  shows "ebind (ebind (efold (vttablet_env_step zk db ks region) VTTABLET_EXTRA_ENV (PDict d))
              (\<lambda>config. py_setitem_at config [''extraLabels''] ''tablet_type'' v))
           (\<lambda>c. py_getitem c ''extraLabels'')
         = Inr (PDict [(''yelp.com/owner'', PStr ''dre_mysql_working_hours''),
                       (''paasta.yelp.com/cluster'', pc),
                       (''paasta.yelp.com/pool'', pool),
                       (''tablet_type'', v)])"
  unfolding tablet_tail[OF e l]
  by (simp add: ebind_Inr py_getitem_def map_of_dict_set del: dict_set.simps)

lemma tablet_tail_env:
  assumes e: "map_of d ''extraEnv'' = Some (build_extra_env pc)"
    and l: "map_of d ''extraLabels'' = Some (build_extra_labels pool pc)"
  shows "ebind (ebind (efold (vttablet_env_step zk db ks region) VTTABLET_EXTRA_ENV (PDict d))
              (\<lambda>config. py_setitem_at config [''extraLabels''] ''tablet_type'' v))
           (\<lambda>c. py_getitem c ''extraEnv'')
         = Inr (PList ([PDict [(''name'', PStr ''PAASTA_POD_IP''),
                                     (''valueFrom'', PDict [(''fieldRef'',
                                        PDict [(''fieldPath'', PStr ''status.podIP'')])])],
                              PDict [(''name'', PStr ''PAASTA_CLUSTER''), (''value'', pc)]]
                        @ map (\<lambda>env. projr (vttablet_env_entry zk db ks region env))
                            VTTABLET_EXTRA_ENV))"
  unfolding tablet_tail[OF e l]
  by (simp add: ebind_Inr py_getitem_def map_of_dict_set del: dict_set.simps)

lemma tablet_tail_total:
  assumes e: "map_of d ''extraEnv'' = Some (build_extra_env pc)"
    and l: "map_of d ''extraLabels'' = Some (build_extra_labels pool pc)"
  shows "\<exists>c. ebind (efold (vttablet_env_step zk db ks region) VTTABLET_EXTRA_ENV (PDict d))
              (\<lambda>config. py_setitem_at config [''extraLabels''] ''tablet_type'' v) = Inr (PDict c)"
  unfolding tablet_tail[OF e l] by blast

lemma build_tablet_pool_config_total:
  "\<exists>c. build_tablet_pool_config cell db ks port pool pc zk tq tt ty region = Inr (PDict c)"
  unfolding build_tablet_pool_config_def Let_def
  by (rule tablet_tail_total) (simp_all only: lookup_simps)

lemma tablet_pool_cell:
  "ebind (build_tablet_pool_config cell db ks port pool pc zk tq tt ty region)
     (\<lambda>c. py_getitem c ''cell'') = Inr cell"
  unfolding build_tablet_pool_config_def Let_def
  by (rule tablet_tail_get) (simp_all only: lookup_simps)

lemma tablet_pool_name:
  "ebind (build_tablet_pool_config cell db ks port pool pc zk tq tt ty region)
     (\<lambda>c. py_getitem c ''name'') = Inr (PStr (py_str db @ ''_'' @ py_str ty))"
  unfolding build_tablet_pool_config_def Let_def
  by (rule tablet_tail_get) (simp_all only: lookup_simps)

lemma tablet_pool_type:
  "ebind (build_tablet_pool_config cell db ks port pool pc zk tq tt ty region)
     (\<lambda>c. py_getitem c ''type'')
   = Inr (PStr (if ty = PStr ''primary'' then ''externalmaster'' else ''externalreplica''))"
  unfolding build_tablet_pool_config_def Let_def
  by (rule tablet_tail_get) (simp_all only: lookup_simps)

lemma tablet_pool_labels:
  "ebind (build_tablet_pool_config cell db ks port pool pc zk tq tt ty region)
     (\<lambda>c. py_getitem c ''extraLabels'')
   = Inr (PDict [(''yelp.com/owner'', PStr ''dre_mysql_working_hours''),
                 (''paasta.yelp.com/cluster'', pc),
                 (''paasta.yelp.com/pool'', pool),
                 (''tablet_type'', PStr (py_str db @ ''_'' @ py_str ty))])"
  unfolding build_tablet_pool_config_def Let_def
  by (rule tablet_tail_labels) (simp_all only: lookup_simps)

lemma tablet_pool_env:
  "ebind (build_tablet_pool_config cell db ks port pool pc zk tq tt ty region)
     (\<lambda>c. py_getitem c ''extraEnv'')
   = Inr (PList ([PDict [(''name'', PStr ''PAASTA_POD_IP''),
                         (''valueFrom'', PDict [(''fieldRef'',
                            PDict [(''fieldPath'', PStr ''status.podIP'')])])],
                  PDict [(''name'', PStr ''PAASTA_CLUSTER''), (''value'', pc)]]
            @ map (\<lambda>env. projr (vttablet_env_entry zk db ks region env)) VTTABLET_EXTRA_ENV))"
  unfolding build_tablet_pool_config_def Let_def
  by (rule tablet_tail_env) (simp_all only: lookup_simps)

lemma tablet_tail_at:
  assumes e: "map_of d ''extraEnv'' = Some (build_extra_env pc)"
    and l: "map_of d ''extraLabels'' = Some (build_extra_labels pool pc)"
    and k: "map_of d k = Some x" "k \<noteq> ''extraEnv''" "k \<noteq> ''extraLabels''"
    and p: "py_at x p = Inr y"
  shows "ebind (ebind (efold (vttablet_env_step zk db ks region) VTTABLET_EXTRA_ENV (PDict d))
              (\<lambda>config. py_setitem_at config [''extraLabels''] ''tablet_type'' v))
           (\<lambda>c. py_at c (Key k # p)) = Inr y"
  unfolding tablet_tail[OF e l]
  by (simp add: ebind_Inr py_getitem_def map_of_dict_set k p del: dict_set.simps)

lemma tablet_pool_threshold:
  "ebind (build_tablet_pool_config cell db ks port pool pc zk tq tt ty region)
     (\<lambda>c. py_at c [Key ''vttablet'', Key ''extraFlags'', Key ''throttle_metrics_threshold''])
   = Inr tt"
  unfolding build_tablet_pool_config_def Let_def
  apply (rule tablet_tail_at)
       apply (simp only: lookup_simps)
      apply (simp only: lookup_simps)
     apply (simp only: lookup_simps)
    apply (simp only: lookup_simps)
   apply (simp only: lookup_simps)
  apply (simp add: ebind_Inr py_getitem_def map_of_dict_set del: dict_set.simps)
  done

lemma tablet_pool_query:
  "ebind (build_tablet_pool_config cell db ks port pool pc zk tq tt ty region)
     (\<lambda>c. py_at c [Key ''vttablet'', Key ''extraFlags'', Key ''throttle_metrics_query''])
   = Inr (PStr (''select max_replication_delay from max_mysql_replication_delay.''
            @ py_str tq @ '';''))"
  unfolding build_tablet_pool_config_def Let_def
  apply (rule tablet_tail_at)
       apply (simp only: lookup_simps)
      apply (simp only: lookup_simps)
     apply (simp only: lookup_simps)
    apply (simp only: lookup_simps)
   apply (simp only: lookup_simps)
  apply (simp add: ebind_Inr py_getitem_def map_of_dict_set del: dict_set.simps)
  done

text \<open>The specialised copy of the blueprint, entry by entry.\<close>

lemma vttablet_env_entries:
  "map (\<lambda>env. projr (vttablet_env_entry zk db ks region env)) VTTABLET_EXTRA_ENV =
    [PDict [(''name'', PStr ''CELL_TOPOLOGY_SERVERS''), (''value'', zk)],
     PDict [(''name'', PStr ''SHARD''), (''value'', PStr ''0'')],
     PDict [(''name'', PStr ''DB''), (''value'', db)],
     PDict [(''name'', PStr ''EXTERNAL_DB''), (''value'', PStr ''1'')],
     PDict [(''name'', PStr ''KEYSPACE''), (''value'', ks)],
     PDict [(''name'', PStr ''ROLE''), (''value'', PStr ''rdonly'')],
     PDict [(''name'', PStr ''WEB_PORT''), (''value'', PStr ''15000'')],
     PDict [(''name'', PStr ''GRPC_PORT''), (''value'', PStr ''15999'')],
     PDict [(''name'', PStr ''TOPOLOGY_FLAGS''),
            (''value'', PStr (''--topo_implementation zk2 --topo_global_server_address $''
               @ py_str zk @ '' --topo_global_root /vitess-paasta/global''))],
     PDict [(''name'', PStr ''VAULT_ADDR''),
            (''value'', PStr (''https://vault-dre.'' @ py_str region @ ''.yelpcorp.com:8200''))],
     PDict [(''name'', PStr ''VAULT_ROLEID''),
            (''valueFrom'', PDict [(''secretKeyRef'', PDict
               [(''name'', PStr ''paasta-vitessclusters-secret-vitess-k8s-vault-vttablet-approle-roleid''),
                (''key'', PStr ''vault-vttablet-approle-roleid'')])])],
     PDict [(''name'', PStr ''VAULT_SECRETID''),
            (''valueFrom'', PDict [(''secretKeyRef'', PDict
               [(''name'', PStr ''paasta-vitessclusters-secret-vitess-k8s-vault-vttablet-approle-secretid''),
                (''key'', PStr ''vault-vttablet-approle-secretid'')])])],
     PDict [(''name'', PStr ''VAULT_CACERT''),
            (''value'', PStr (''/etc/vault/all_cas/acm-privateca-'' @ py_str region @ ''.crt''))]]"
  by (simp add: VTTABLET_EXTRA_ENV_def env_value_def env_secret_def vttablet_env_entry_def
      set_if_name_entry ebind_Inr WEB_PORT_def GRPC_PORT_def TOPO_IMPLEMENTATION_def
      TOPO_GLOBAL_ROOT_def)

section \<open>Keyspaces\<close>

lemma throttle_policy_str:
  "throttle_policy tablet_type (PStr c) =
     Inr (if tablet_type = ''migration'' then (''migration_replication_delay'', ''7200'')
          else (''read_replication_delay'',
                if take (length ''refresh'') c = ''refresh''
                   \<or> take (length ''sanitized'') c = ''sanitized'' then ''30'' else ''3''))"
  unfolding throttle_policy_def py_startswith_def
  by (simp only: pyval.case ebind_Inr split: if_split) blast

lemma descriptorD:
  "descriptor kc = Some (n, c) \<Longrightarrow>
     py_getitem kc ''keyspace'' = Inr n \<and> py_getitem kc ''cluster'' = Inr (PStr c)"
  by (auto simp: descriptor_def split: sum.splits pyval.splits)

lemma tablet_type_step_eq:
  assumes m: "map_of m c = Some roles" and cs: "py_iter cells = Inr cs"
  shows "tablet_type_step m (PStr c) cells n n paasta_pool paasta_cluster zk_address region
           tablet_type tablet_pools
         = Inr (tablet_pools @ role_pools roles c cs n paasta_pool paasta_cluster zk_address
                  region tablet_type)"
proof (cases "map_of roles tablet_type")
  case None
  then show ?thesis
    by (simp add: tablet_type_step_def port_mappings_getitem_def m ebind_Inr role_pools_def)
next
  case (Some port)
  obtain tq tt where p: "throttle_policy tablet_type (PStr c) = Inr (tq, tt)"
    using throttle_policy_str[of tablet_type c] by (cases "tablet_type = ''migration''") auto
  have e: "emap (\<lambda>cell. build_tablet_pool_config cell n n (PInt port) paasta_pool paasta_cluster
                   zk_address (PStr tq) (PStr tt) (PStr tablet_type) region) cs
           = Inr (map (\<lambda>cell. projr (build_tablet_pool_config cell n n (PInt port) paasta_pool
                   paasta_cluster zk_address (PStr tq) (PStr tt) (PStr tablet_type) region)) cs)"
    by (rule emap_total) (use build_tablet_pool_config_total in blast)
  show ?thesis
    by (simp add: tablet_type_step_def port_mappings_getitem_def m Some p cs e ebind_Inr
        role_pools_def)
qed

lemma tablet_types_loop_eq:
  assumes m: "map_of m c = Some roles" and cs: "py_iter cells = Inr cs"
  shows "efold (tablet_type_step m (PStr c) cells n n paasta_pool paasta_cluster zk_address region)
           TABLET_TYPES []
         = Inr (keyspace_pools m c cs n paasta_pool paasta_cluster zk_address region)"
  by (simp add: TABLET_TYPES_def tablet_type_step_eq[OF m cs] ebind_Inr keyspace_pools_def m)

lemma keyspaces_loop_eq:
  assumes "map descriptor kss = map Some kds"
    and "\<forall>(n, c) \<in> set kds. map_of (port_mappings_table w) c \<noteq> None"
    and cs: "py_iter cells = Inr cs"
  shows "keyspaces_loop kss cells paasta_pool paasta_cluster zk_address region config w
         = (Inr (config @ map (\<lambda>(n, c). keyspace_spec n
                     (keyspace_pools (port_mappings_table w) c cs n paasta_pool paasta_cluster
                        zk_address region)) kds),
            w\<lparr>port_mapping_queries := port_mapping_queries w + length kss\<rparr>)"
  using assms(1,2)
proof (induction kss arbitrary: kds config w)
  case Nil
  then show ?case by simp
next
  case (Cons kc kss)
  from Cons.prems(1) obtain n c kds' where kds: "kds = (n, c) # kds'"
    and d: "descriptor kc = Some (n, c)" and r: "map descriptor kss = map Some kds'"
    by (cases kds) auto
  from Cons.prems(2) kds obtain roles where m: "map_of (port_mappings_table w) c = Some roles"
    by auto
  let ?w = "w\<lparr>port_mapping_queries := Suc (port_mapping_queries w)\<rparr>"
  have t: "port_mappings_table ?w = port_mappings_table w" by simp
  have ih: "keyspaces_loop kss cells paasta_pool paasta_cluster zk_address region config' ?w
         = (Inr (config' @ map (\<lambda>(n, c). keyspace_spec n
                     (keyspace_pools (port_mappings_table ?w) c cs n paasta_pool paasta_cluster
                        zk_address region)) kds'),
            ?w\<lparr>port_mapping_queries := port_mapping_queries ?w + length kss\<rparr>)" for config'
    by (rule Cons.IH[OF r]) (use Cons.prems(2) kds in auto)
  show ?case
    using descriptorD[OF d]
    by (simp add: get_mysql_port_mappings_def tablet_types_loop_eq[OF m cs] ih kds
        keyspace_spec_def)
qed

lemma build_keyspaces_config_eq:
  assumes "map descriptor kss = map Some kds"
    and "\<forall>(n, c) \<in> set kds. map_of (port_mappings_table w) c \<noteq> None"
    and cs: "py_iter cells = Inr cs"
  shows "build_keyspaces_config cells (PList kss) paasta_pool paasta_cluster zk_address region w
         = (Inr (PList (map (\<lambda>(n, c). keyspace_spec n
                     (keyspace_pools (port_mappings_table w) c cs n paasta_pool paasta_cluster
                        zk_address region)) kds)),
            w\<lparr>port_mapping_queries := port_mapping_queries w + length kss\<rparr>)"
  by (simp add: build_keyspaces_config_def py_iter_def keyspaces_loop_eq[OF assms])

lemma keyspace_spec_pools:
  "py_at (keyspace_spec n pools) tablet_pools_path = Inr (PList pools)"
  by (simp add: keyspace_spec_def tablet_pools_path_def py_getitem_def py_index_def ebind_Inr)

lemma keyspace_spec_name: "py_getitem (keyspace_spec n pools) ''name'' = Inr n"
  by (simp add: keyspace_spec_def py_getitem_def)

section \<open>Cells, dashboard and the instance configuration\<close>

lemma VTGATE_entries: "list_all is_entry VTGATE_EXTRA_ENV"
  by (simp add: VTGATE_EXTRA_ENV_def env_value_def env_secret_def)

lemma VTCTLD_entries: "list_all is_entry VTCTLD_EXTRA_ENV"
  by (simp add: VTCTLD_EXTRA_ENV_def env_value_def env_secret_def)

lemma vtgate_env_entry_total:
  assumes "is_entry env"
  shows "\<exists>e. vtgate_env_entry region env = Inr e"
proof -
  from is_entryE[OF assms] obtain m rest where "env = PDict ((''name'', PStr m) # rest)"
    by blast
  then show ?thesis
    by (simp add: vtgate_env_entry_def set_if_name_entry ebind_Inr
        del: dict_set.simps split del: if_split)
qed

lemma vtctld_env_entry_total:
  assumes "is_entry env"
  shows "\<exists>e. vtctld_env_entry zk env = Inr e"
proof -
  from is_entryE[OF assms] obtain m rest where "env = PDict ((''name'', PStr m) # rest)"
    by blast
  then show ?thesis
    by (simp add: vtctld_env_entry_def set_if_name_entry
        del: dict_set.simps split del: if_split)
qed

lemma vtgate_env_step_eq:
  "vtgate_env_step region
     = (\<lambda>env config. ebind (vtgate_env_entry region env)
                        (\<lambda>e. py_append_at config [''gateway'', ''extraEnv''] e))"
  by (intro ext) (simp add: vtgate_env_step_def)

lemma vtctld_env_step_eq:
  "vtctld_env_step zk
     = (\<lambda>env config. ebind (vtctld_env_entry zk env)
                        (\<lambda>e. py_append_at config [''extraEnv''] e))"
  by (intro ext) (simp add: vtctld_env_step_def)

lemma cell_tail:
  assumes g: "map_of d ''gateway'' = Some (PDict gw)"
    and e: "map_of gw ''extraEnv'' = Some (build_extra_env pc)"
  shows "efold (vtgate_env_step region) VTGATE_EXTRA_ENV (PDict d)
         = Inr (PDict (dict_set d ''gateway'' (PDict (dict_set gw ''extraEnv''
             (PList ([PDict [(''name'', PStr ''PAASTA_POD_IP''),
                             (''valueFrom'', PDict [(''fieldRef'',
                                PDict [(''fieldPath'', PStr ''status.podIP'')])])],
                      PDict [(''name'', PStr ''PAASTA_CLUSTER''), (''value'', pc)]]
                @ map (\<lambda>env. projr (vtgate_env_entry region env)) VTGATE_EXTRA_ENV))))))"
proof -
  have t: "\<And>env. env \<in> set VTGATE_EXTRA_ENV \<Longrightarrow> \<exists>e. vtgate_env_entry region env = Inr e"
    using VTGATE_entries by (auto simp: list_all_iff intro: vtgate_env_entry_total)
  have e': "map_of gw ''extraEnv''
              = Some (PList [PDict [(''name'', PStr ''PAASTA_POD_IP''),
                             (''valueFrom'', PDict [(''fieldRef'',
                                PDict [(''fieldPath'', PStr ''status.podIP'')])])],
                      PDict [(''name'', PStr ''PAASTA_CLUSTER''), (''value'', pc)]])"
    using e by (simp add: build_extra_env_def)
  show ?thesis
    unfolding vtgate_env_step_eq by (rule efold_append_entries2[OF t g e'])
qed

lemma cell_tail_at:
  assumes g: "map_of d ''gateway'' = Some (PDict gw)"
    and e: "map_of gw ''extraEnv'' = Some (build_extra_env pc)"
    and k: "map_of gw k = Some x" "k \<noteq> ''extraEnv''"
    and p: "py_at x p = Inr y"
  shows "ebind (efold (vtgate_env_step region) VTGATE_EXTRA_ENV (PDict d))
           (\<lambda>c. py_at c (Key ''gateway'' # Key k # p)) = Inr y"
  unfolding cell_tail[OF g e]
  by (simp add: ebind_Inr py_getitem_def map_of_dict_set k p del: dict_set.simps)

lemma cell_tail_total:
  assumes g: "map_of d ''gateway'' = Some (PDict gw)"
    and e: "map_of gw ''extraEnv'' = Some (build_extra_env pc)"
  shows "\<exists>c. efold (vtgate_env_step region) VTGATE_EXTRA_ENV (PDict d) = Inr c"
  unfolding cell_tail[OF g e] by blast

lemma build_cell_config_total:
  "\<exists>c. build_cell_config cell paasta_pool paasta_cluster region = Inr c"
  unfolding build_cell_config_def Let_def
  by (rule cell_tail_total[where pc = paasta_cluster]) (simp only: lookup_simps)+

lemma cell_vault_addr:
  "ebind (build_cell_config cell paasta_pool paasta_cluster region)
     (\<lambda>c. py_at c [Key ''gateway'', Key ''extraFlags'', Key ''mysql_auth_vault_addr''])
   = Inr (PStr (''https://vault-dre.'' @ py_str region @ ''.yelpcorp.com:8200''))"
  unfolding build_cell_config_def Let_def
  apply (rule cell_tail_at[where pc = paasta_cluster])
      apply (simp only: lookup_simps)
     apply (simp only: lookup_simps)
    apply (simp only: lookup_simps)
   apply (simp only: lookup_simps)
  apply (simp add: ebind_Inr py_getitem_def)
  done

lemma dashboard_tail_total:
  assumes e: "map_of d ''extraEnv'' = Some (build_extra_env pc)"
  shows "\<exists>c. efold (vtctld_env_step zk) VTCTLD_EXTRA_ENV (PDict d) = Inr c"
proof -
  have t: "\<And>env. env \<in> set VTCTLD_EXTRA_ENV \<Longrightarrow> \<exists>e. vtctld_env_entry zk env = Inr e"
    using VTCTLD_entries by (auto simp: list_all_iff intro: vtctld_env_entry_total)
  from e obtain xs where e': "map_of d ''extraEnv'' = Some (PList xs)"
    by (simp add: build_extra_env_def)
  have "efold (vtctld_env_step zk) VTCTLD_EXTRA_ENV (PDict d)
          = Inr (PDict (dict_set d ''extraEnv''
              (PList (xs @ map (\<lambda>env. projr (vtctld_env_entry zk env)) VTCTLD_EXTRA_ENV))))"
    unfolding vtctld_env_step_eq by (rule efold_append_entries[OF t e'])
  then show ?thesis by blast
qed

lemma build_vitess_dashboard_config_total:
  "\<exists>c. build_vitess_dashboard_config cells paasta_pool paasta_cluster zk = Inr c"
  unfolding build_vitess_dashboard_config_def Let_def
  by (rule dashboard_tail_total[where pc = paasta_cluster]) (simp_all only: lookup_simps)

lemma cells_comprehension:
  "ebind (py_iter (PList cs))
     (emap (\<lambda>cell. build_cell_config cell paasta_pool paasta_cluster region))
   = Inr (map (\<lambda>cell. projr (build_cell_config cell paasta_pool paasta_cluster region)) cs)"
proof -
  have "emap (\<lambda>cell. build_cell_config cell paasta_pool paasta_cluster region) cs
        = Inr (map (\<lambda>cell. projr (build_cell_config cell paasta_pool paasta_cluster region)) cs)"
    by (rule emap_total) (rule build_cell_config_total)
  then show ?thesis by (simp add: py_iter_def ebind_Inr)
qed

text \<open>
  On an instance description whose \<open>cells\<close> are a list and whose \<open>keyspaces\<close> are a list
  of descriptors on known clusters, the synthesis returns a tree; these are the places
  of the tree that the claims look at.
\<close>

lemma generate_vitess_instance_config_fields:
  assumes c: "dict_get cfg ''cells'' = PList cs"
    and k: "dict_get cfg ''keyspaces'' = PList kss"
    and d: "map descriptor kss = map Some kds"
    and m: "\<forall>(n, c) \<in> set kds. map_of (port_mappings_table w) c \<noteq> None"
  shows "\<exists>out. generate_vitess_instance_config cfg w
            = (Inr (PDict out), w\<lparr>port_mapping_queries := port_mapping_queries w + length kss\<rparr>)
       \<and> map_of out ''cpus'' = Some (dict_get cfg ''cpus'')
       \<and> map_of out ''mem'' = Some (dict_get cfg ''mem'')
       \<and> map_of out ''deploy_group'' = Some (dict_get cfg ''deploy_group'')
       \<and> map_of out ''globalLockserver''
           = Some (PDict [(''external'', PDict
                [(''implementation'', PStr TOPO_IMPLEMENTATION),
                 (''address'', dict_get cfg ''zk_address''),
                 (''rootPath'', PStr TOPO_GLOBAL_ROOT)])])
       \<and> map_of out ''cells''
           = Some (PList (map (\<lambda>cell. projr (build_cell_config cell
                (dict_get cfg ''paasta_pool'') (dict_get cfg ''paasta_cluster'')
                (dict_get cfg ''region''))) cs))
       \<and> map_of out ''vtadmin''
           = Some (build_vt_admin_config (PList cs) (dict_get cfg ''paasta_pool'')
                (dict_get cfg ''paasta_cluster''))
       \<and> map_of out ''keyspaces''
           = Some (PList (map (\<lambda>(n, c). keyspace_spec n
                (keyspace_pools (port_mappings_table w) c cs n (dict_get cfg ''paasta_pool'')
                   (dict_get cfg ''paasta_cluster'') (dict_get cfg ''zk_address'')
                   (dict_get cfg ''region''))) kds))"
proof -
  obtain dc where dc: "build_vitess_dashboard_config (PList cs) (dict_get cfg ''paasta_pool'')
      (dict_get cfg ''paasta_cluster'') (dict_get cfg ''zk_address'') = Inr dc"
    using build_vitess_dashboard_config_total by blast
  have it: "py_iter (PList cs) = Inr cs" by (simp add: py_iter_def)
  note ks = build_keyspaces_config_eq[OF d m it, of "dict_get cfg ''paasta_pool''"
      "dict_get cfg ''paasta_cluster''" "dict_get cfg ''zk_address''" "dict_get cfg ''region''"]
  have g: "generate_vitess_instance_config cfg w = (Inr (PDict X), W)
      \<Longrightarrow> \<exists>out. generate_vitess_instance_config cfg w = (Inr (PDict out), W) \<and> out = X" for X W
    by simp
  show ?thesis
    unfolding generate_vitess_instance_config_def Let_def c k cells_comprehension dc ks
    apply (simp only: sum.case prod.case)
    apply (intro exI conjI)
           apply (rule refl)
          apply (simp only: lookup_simps)+
    done
qed

section \<open>What a tablet pool of the fan-out looks like\<close>

lemma tablet_pool_obs:
  "\<exists>config. build_tablet_pool_config cell db ks port pool pc zk tq tt ty region = Inr config
     \<and> py_getitem config ''cell'' = Inr cell
     \<and> py_getitem config ''name'' = Inr (PStr (py_str db @ ''_'' @ py_str ty))
     \<and> py_getitem config ''type''
         = Inr (PStr (if ty = PStr ''primary'' then ''externalmaster'' else ''externalreplica''))
     \<and> py_at config [Key ''vttablet'', Key ''extraFlags'', Key ''throttle_metrics_threshold'']
         = Inr tt
     \<and> py_at config [Key ''vttablet'', Key ''extraFlags'', Key ''throttle_metrics_query'']
         = Inr (PStr (''select max_replication_delay from max_mysql_replication_delay.''
                  @ py_str tq @ '';''))
     \<and> py_getitem config ''extraEnv''
         = Inr (PList ([PDict [(''name'', PStr ''PAASTA_POD_IP''),
                               (''valueFrom'', PDict [(''fieldRef'',
                                  PDict [(''fieldPath'', PStr ''status.podIP'')])])],
                        PDict [(''name'', PStr ''PAASTA_CLUSTER''), (''value'', pc)]]
                  @ map (\<lambda>env. projr (vttablet_env_entry zk db ks region env))
                      VTTABLET_EXTRA_ENV))"
proof -
  obtain c where c: "build_tablet_pool_config cell db ks port pool pc zk tq tt ty region
       = Inr (PDict c)"
    using build_tablet_pool_config_total by blast
  from tablet_pool_cell[of cell db ks port pool pc zk tq tt ty region]
    tablet_pool_name[of cell db ks port pool pc zk tq tt ty region]
    tablet_pool_type[of cell db ks port pool pc zk tq tt ty region]
    tablet_pool_threshold[of cell db ks port pool pc zk tq tt ty region]
    tablet_pool_query[of cell db ks port pool pc zk tq tt ty region]
    tablet_pool_env[of cell db ks port pool pc zk tq tt ty region]
  show ?thesis
    unfolding c ebind_Inr by blast
qed



lemma role_pools_name:
  assumes "p \<in> set (role_pools roles c cs n pool pc zk region tablet_type)"
  shows "py_getitem p ''name'' = Inr (PStr (py_str n @ ''_'' @ tablet_type))"
proof -
  have "py_getitem (projr (build_tablet_pool_config cell n n port pool pc zk tq tt
            (PStr tablet_type) region)) ''name''
          = Inr (PStr (py_str n @ ''_'' @ tablet_type))" for cell port tq tt
    using tablet_pool_obs[of cell n n port pool pc zk tq tt "PStr tablet_type" region]
    by (auto simp: py_str_def)
  with assms show ?thesis
    by (auto simp: role_pools_def split: option.splits)
qed

lemma role_pools_names_cells:
  "map (\<lambda>p. (py_getitem p ''name'', py_getitem p ''cell''))
       (role_pools roles c cs n pool pc zk region tablet_type)
     = (case map_of roles tablet_type of
          None \<Rightarrow> []
        | Some port \<Rightarrow> map (\<lambda>cell. (Inr (PStr (py_str n @ ''_'' @ tablet_type)), Inr cell)) cs)"
proof -
  have "py_getitem (projr (build_tablet_pool_config cell n n port pool pc zk tq tt
            (PStr tablet_type) region)) ''name''
          = Inr (PStr (py_str n @ ''_'' @ tablet_type))
      \<and> py_getitem (projr (build_tablet_pool_config cell n n port pool pc zk tq tt
            (PStr tablet_type) region)) ''cell'' = Inr cell" for cell port tq tt
    using tablet_pool_obs[of cell n n port pool pc zk tq tt "PStr tablet_type" region]
    by (auto simp: py_str_def)
  then show ?thesis
    by (simp add: role_pools_def split: option.splits)
qed


lemma keyspaces_loop_queries:
  "keyspaces_loop kss cells pool pc zk region config w = (Inr r, w')
     \<Longrightarrow> port_mapping_queries w' = port_mapping_queries w + length kss"
proof (induction kss arbitrary: config w)
  case Nil
  then show ?case by simp
next
  case (Cons kc kss)
  from Cons.prems obtain config' where
    "keyspaces_loop kss cells pool pc zk region config'
       (w\<lparr>port_mapping_queries := Suc (port_mapping_queries w)\<rparr>) = (Inr r, w')"
    by (auto simp: get_mysql_port_mappings_def split: sum.splits)
  from Cons.IH[OF this] show ?case by simp
qed

lemma build_keyspaces_config_queries:
  assumes "build_keyspaces_config cells keyspaces pool pc zk region w = (Inr r, w')"
    and "py_iter keyspaces = Inr kss"
  shows "port_mapping_queries w' = port_mapping_queries w + length kss"
proof -
  from assms obtain config where
    "keyspaces_loop kss cells pool pc zk region [] w = (Inr config, w')"
    by (auto simp: build_keyspaces_config_def split: sum.splits prod.splits)
  then show ?thesis by (rule keyspaces_loop_queries)
qed

text \<open>
  The pools of one tablet type carry the throttling parameters that the loop derived for
  it: name, metrics query and threshold of each, in the order of the cells.
\<close>

lemma role_pools_policy:
  "map (\<lambda>p. (py_getitem p ''name'',
              py_at p [Key ''vttablet'', Key ''extraFlags'', Key ''throttle_metrics_query''],
              py_at p [Key ''vttablet'', Key ''extraFlags'', Key ''throttle_metrics_threshold'']))
       (role_pools roles c cs n pool pc zk region tablet_type)
     = (case map_of roles tablet_type of
          None \<Rightarrow> []
        | Some port \<Rightarrow>
            map (\<lambda>cell.
              (Inr (PStr (py_str n @ ''_'' @ tablet_type)),
               Inr (PStr (''select max_replication_delay from max_mysql_replication_delay.''
                  @ (if tablet_type = ''migration'' then ''migration_replication_delay''
                     else ''read_replication_delay'') @ '';'')),
               Inr (PStr (if tablet_type = ''migration'' then ''7200''
                          else if take (length ''refresh'') c = ''refresh''
                                  \<or> take (length ''sanitized'') c = ''sanitized''
                               then ''30'' else ''3'')))) cs)"
proof (cases "map_of roles tablet_type")
  case None
  then show ?thesis by (simp add: role_pools_def)
next
  case (Some port)
  define tq where "tq = (if tablet_type = ''migration'' then ''migration_replication_delay''
                     else ''read_replication_delay'')"
  define tt where "tt = (if tablet_type = ''migration'' then ''7200''
                          else if take (length ''refresh'') c = ''refresh''
                                  \<or> take (length ''sanitized'') c = ''sanitized''
                               then ''30'' else ''3'')"
  have p: "throttle_policy tablet_type (PStr c) = Inr (tq, tt)"
    by (simp add: throttle_policy_str tq_def tt_def)
  have h: "py_getitem (projr (build_tablet_pool_config cell n n (PInt port) pool pc zk (PStr tq)
            (PStr tt) (PStr tablet_type) region)) ''name''
          = Inr (PStr (py_str n @ ''_'' @ tablet_type))"
     "py_at (projr (build_tablet_pool_config cell n n (PInt port) pool pc zk (PStr tq) (PStr tt)
            (PStr tablet_type) region))
            [Key ''vttablet'', Key ''extraFlags'', Key ''throttle_metrics_query'']
          = Inr (PStr (''select max_replication_delay from max_mysql_replication_delay.''
                  @ tq @ '';''))"
     "py_at (projr (build_tablet_pool_config cell n n (PInt port) pool pc zk (PStr tq) (PStr tt)
            (PStr tablet_type) region))
            [Key ''vttablet'', Key ''extraFlags'', Key ''throttle_metrics_threshold'']
          = Inr (PStr tt)" for cell
    using tablet_pool_obs[of cell n n "PInt port" pool pc zk "PStr tq" "PStr tt"
        "PStr tablet_type" region]
    by (auto simp: py_str_def)
  have r: "role_pools roles c cs n pool pc zk region tablet_type
      = map (\<lambda>cell. projr (build_tablet_pool_config cell n n (PInt port) pool pc zk (PStr tq)
            (PStr tt) (PStr tablet_type) region)) cs"
    by (simp add: role_pools_def Some p)
  have "map (\<lambda>p. (py_getitem p ''name'',
              py_at p [Key ''vttablet'', Key ''extraFlags'', Key ''throttle_metrics_query''],
              py_at p [Key ''vttablet'', Key ''extraFlags'', Key ''throttle_metrics_threshold'']))
       (role_pools roles c cs n pool pc zk region tablet_type)
     = map (\<lambda>cell.
              (Inr (PStr (py_str n @ ''_'' @ tablet_type)),
               Inr (PStr (''select max_replication_delay from max_mysql_replication_delay.''
                  @ tq @ '';'')),
               Inr (PStr tt))) cs"
    unfolding r by (simp only: map_map comp_def h)
  then show ?thesis
    unfolding Some option.case tq_def tt_def .
qed

section \<open>Claims on the tablet pool\<close>

text \<open>
  Claim C3. For every database name and tablet role, the tablet-pool specification has
  the name \<open>{database_name}_{role}\<close>, and the datastore type \<open>externalmaster\<close> when the
  role is \<open>primary\<close> and \<open>externalreplica\<close> for any other role.
\<close>

theorem tablet_pool_naming:
  "ebind (build_tablet_pool_config cell db ks port pool pc zk tq tt ty region)
     (\<lambda>config. py_getitem config ''name'') = Inr (PStr (py_str db @ ''_'' @ py_str ty))
   \<and> ebind (build_tablet_pool_config cell db ks port pool pc zk tq tt ty region)
       (\<lambda>config. py_getitem config ''type'')
     = Inr (PStr (if ty = PStr ''primary'' then ''externalmaster'' else ''externalreplica''))"
  using tablet_pool_name[of cell db ks port pool pc zk tq tt ty region]
    tablet_pool_type[of cell db ks port pool pc zk tq tt ty region]
  by (intro conjI)

theorem tablet_pool_naming_witness:
  "ebind (build_tablet_pool_config (PStr ''cellA'') (PStr ''orders'') (PStr ''orders'') (PInt 3306)
       (PStr ''default'') (PStr ''norcal-devc'') (PStr ''zk:2181'') (PStr ''read_replication_delay'')
       (PStr ''30'') (PStr ''primary'') (PStr ''uswest1-devc''))
     (\<lambda>config. py_getitem config ''name'') = Inr (PStr ''orders_primary'')
   \<and> ebind (build_tablet_pool_config (PStr ''cellA'') (PStr ''orders'') (PStr ''orders'') (PInt 3306)
       (PStr ''default'') (PStr ''norcal-devc'') (PStr ''zk:2181'') (PStr ''read_replication_delay'')
       (PStr ''30'') (PStr ''primary'') (PStr ''uswest1-devc''))
     (\<lambda>config. py_getitem config ''type'') = Inr (PStr ''externalmaster'')
   \<and> ebind (build_tablet_pool_config (PStr ''cellA'') (PStr ''orders'') (PStr ''orders'') (PInt 3307)
       (PStr ''default'') (PStr ''norcal-devc'') (PStr ''zk:2181'')
       (PStr ''migration_replication_delay'') (PStr ''7200'') (PStr ''migration'')
       (PStr ''uswest1-devc''))
     (\<lambda>config. py_getitem config ''name'') = Inr (PStr ''orders_migration'')
   \<and> ebind (build_tablet_pool_config (PStr ''cellA'') (PStr ''orders'') (PStr ''orders'') (PInt 3307)
       (PStr ''default'') (PStr ''norcal-devc'') (PStr ''zk:2181'')
       (PStr ''migration_replication_delay'') (PStr ''7200'') (PStr ''migration'')
       (PStr ''uswest1-devc''))
     (\<lambda>config. py_getitem config ''type'') = Inr (PStr ''externalreplica'')"
  using tablet_pool_naming[of "PStr ''cellA''" "PStr ''orders''" "PStr ''orders''" "PInt 3306"
      "PStr ''default''" "PStr ''norcal-devc''" "PStr ''zk:2181''" "PStr ''read_replication_delay''"
      "PStr ''30''" "PStr ''primary''" "PStr ''uswest1-devc''"]
    tablet_pool_naming[of "PStr ''cellA''" "PStr ''orders''" "PStr ''orders''" "PInt 3307"
      "PStr ''default''" "PStr ''norcal-devc''" "PStr ''zk:2181''"
      "PStr ''migration_replication_delay''" "PStr ''7200''" "PStr ''migration''"
      "PStr ''uswest1-devc''"]
  by (simp add: py_str_def)

text \<open>
  Claim C10. In every tablet-pool specification that \<open>build_tablet_pool_config\<close> returns,
  the \<open>extraLabels\<close> mapping has the key \<open>tablet_type\<close>, and its value is the
  specification's own name, \<open>{db_name}_{tablet_type}\<close>.
\<close>

theorem tablet_type_label_is_name:
  "\<exists>config. build_tablet_pool_config cell db ks port pool pc zk tq tt ty region = Inr config
     \<and> py_at config [Key ''extraLabels'', Key ''tablet_type'']
         = Inr (PStr (py_str db @ ''_'' @ py_str ty))
     \<and> py_at config [Key ''extraLabels'', Key ''tablet_type''] = py_getitem config ''name''"
proof -
  obtain c where c: "build_tablet_pool_config cell db ks port pool pc zk tq tt ty region
       = Inr (PDict c)"
    using build_tablet_pool_config_total by blast
  from tablet_pool_labels[of cell db ks port pool pc zk tq tt ty region]
    tablet_pool_name[of cell db ks port pool pc zk tq tt ty region]
  show ?thesis by (simp add: c ebind_Inr py_getitem_def split: option.splits)
qed

theorem tablet_type_label_is_name_witness:
  "\<exists>config. build_tablet_pool_config (PStr ''cellA'') (PStr ''orders'') (PStr ''orders'')
         (PInt 3306) (PStr ''default'') (PStr ''norcal-devc'') (PStr ''zk:2181'')
         (PStr ''read_replication_delay'') (PStr ''3'') (PStr ''primary'') (PStr ''uswest1-devc'')
         = Inr config
     \<and> py_at config [Key ''extraLabels'', Key ''tablet_type''] = Inr (PStr ''orders_primary'')
     \<and> py_at config [Key ''extraLabels'', Key ''tablet_type''] = py_getitem config ''name''"
  using tablet_type_label_is_name[of "PStr ''cellA''" "PStr ''orders''" "PStr ''orders''"
      "PInt 3306" "PStr ''default''" "PStr ''norcal-devc''" "PStr ''zk:2181''"
      "PStr ''read_replication_delay''" "PStr ''3''" "PStr ''primary''" "PStr ''uswest1-devc''"]
  by (simp add: py_str_def)

section \<open>Claims on the fan-out\<close>



text \<open>
  Claim C6. The keyspace specifications come in the order of the keyspace descriptors,
  and the tablet pools of each in the order of \<open>TABLET_TYPES\<close> (\<open>primary\<close>, then
  \<open>migration\<close>) and, for one tablet type, in the order of the cells: the sequence of
  (keyspace, pool name, cell) is the input order, with nothing sorted. The result is a
  function of the input.
\<close>

theorem fan_out_order:
  assumes "map descriptor kss = map Some kds"
    and "\<forall>(n, c) \<in> set kds. map_of (port_mappings_table w) c \<noteq> None"
  shows "\<exists>out w'.
           build_keyspaces_config (PList cs) (PList kss) paasta_pool paasta_cluster zk_address
             region w = (Inr (PList out), w')
         \<and> map (\<lambda>ks. (py_getitem ks ''name'',
                       ebind (py_at ks tablet_pools_path) (\<lambda>pools.
                       ebind (py_iter pools) (\<lambda>pools.
                         Inr (map (\<lambda>p. (py_getitem p ''name'', py_getitem p ''cell'')) pools)))))
               out
             = map (\<lambda>(n, c).
                 (Inr n,
                  Inr (concat (map (\<lambda>tablet_type.
                    case map_of (case map_of (port_mappings_table w) c of
                                   None \<Rightarrow> [] | Some roles \<Rightarrow> roles) tablet_type of
                      None \<Rightarrow> []
                    | Some port \<Rightarrow>
                        map (\<lambda>cell. (Inr (PStr (py_str n @ ''_'' @ tablet_type)), Inr cell)) cs)
                    TABLET_TYPES)))) kds"
proof -
  have it: "py_iter (PList cs) = Inr cs" by (simp add: py_iter_def)
  have "map (\<lambda>p. (py_getitem p ''name'', py_getitem p ''cell''))
           (keyspace_pools m c cs n paasta_pool paasta_cluster zk_address region)
        = concat (map (\<lambda>tablet_type.
                    case map_of (case map_of m c of None \<Rightarrow> [] | Some roles \<Rightarrow> roles)
                           tablet_type of
                      None \<Rightarrow> []
                    | Some port \<Rightarrow>
                        map (\<lambda>cell. (Inr (PStr (py_str n @ ''_'' @ tablet_type)), Inr cell)) cs)
                    TABLET_TYPES)" for m c n
    by (simp add: keyspace_pools_def map_concat comp_def role_pools_names_cells)
  then show ?thesis
    using build_keyspaces_config_eq[OF assms it, of paasta_pool paasta_cluster zk_address region]
    by (simp add: comp_def case_prod_unfold keyspace_spec_pools keyspace_spec_name ebind_Inr
        py_iter_def)
qed

theorem fan_out_order_witness:
  "\<exists>out w'.
      build_keyspaces_config (PList [PStr ''cellA'', PStr ''cellB''])
        (PList [PDict [(''keyspace'', PStr ''orders''), (''cluster'', PStr ''main1'')],
                PDict [(''keyspace'', PStr ''billing''), (''cluster'', PStr ''aux2'')]])
        (PStr ''default'') (PStr ''norcal-devc'') (PStr ''zk:2181'') (PStr ''uswest1-devc'')
        \<lparr>port_mappings_table = [(''aux2'', [(''primary'', 3306)]),
                                 (''main1'', [(''migration'', 3307), (''primary'', 3308)])],
         port_mapping_queries = 0\<rparr>
        = (Inr (PList out), w')
    \<and> map (\<lambda>ks. (py_getitem ks ''name'',
                  ebind (py_at ks tablet_pools_path) (\<lambda>pools.
                  ebind (py_iter pools) (\<lambda>pools.
                    Inr (map (\<lambda>p. (py_getitem p ''name'', py_getitem p ''cell'')) pools)))))
          out
        = [(Inr (PStr ''orders''),
            Inr [(Inr (PStr ''orders_primary''), Inr (PStr ''cellA'')),
                 (Inr (PStr ''orders_primary''), Inr (PStr ''cellB'')),
                 (Inr (PStr ''orders_migration''), Inr (PStr ''cellA'')),
                 (Inr (PStr ''orders_migration''), Inr (PStr ''cellB''))]),
           (Inr (PStr ''billing''),
            Inr [(Inr (PStr ''billing_primary''), Inr (PStr ''cellA'')),
                 (Inr (PStr ''billing_primary''), Inr (PStr ''cellB''))])]"
proof -
  let ?w = "\<lparr>port_mappings_table = [(''aux2'', [(''primary'', 3306)]),
                                 (''main1'', [(''migration'', 3307), (''primary'', 3308)])],
             port_mapping_queries = 0\<rparr>"
  let ?kss = "[PDict [(''keyspace'', PStr ''orders''), (''cluster'', PStr ''main1'')],
               PDict [(''keyspace'', PStr ''billing''), (''cluster'', PStr ''aux2'')]]"
  let ?kds = "[(PStr ''orders'', ''main1''), (PStr ''billing'', ''aux2'')]"
  have a: "map descriptor ?kss = map Some ?kds"
    by (simp add: descriptor_def py_getitem_def)
  have b: "\<forall>(n, c) \<in> set ?kds. map_of (port_mappings_table ?w) c \<noteq> None"
    by simp
  from fan_out_order[OF a b, of "[PStr ''cellA'', PStr ''cellB'']"
      "PStr ''default''" "PStr ''norcal-devc''" "PStr ''zk:2181''" "PStr ''uswest1-devc''"]
  show ?thesis by (simp add: py_str_def TABLET_TYPES_def)
qed

section \<open>Claims on the synthesis as a whole\<close>

text \<open>
  Claim C9, as stated: the port-mapping collaborator is queried exactly once per
  synthesis call, whatever the number of keyspaces. It does not hold: the query is in
  the body of the loop over the keyspaces, and a description with two keyspaces makes two
  queries.
\<close>

theorem port_mapping_queried_once_counterexample:
  "\<not> isl (fst (generate_vitess_instance_config
        [(''cells'', PList [PStr ''cellA'']),
         (''keyspaces'', PList
            [PDict [(''keyspace'', PStr ''orders''), (''cluster'', PStr ''main1'')],
             PDict [(''keyspace'', PStr ''billing''), (''cluster'', PStr ''main1'')]]),
         (''region'', PStr ''uswest1-devc'')]
        \<lparr>port_mappings_table = [(''main1'', [(''primary'', 3306)])],
         port_mapping_queries = 0\<rparr>))
   \<and> port_mapping_queries (snd (generate_vitess_instance_config
        [(''cells'', PList [PStr ''cellA'']),
         (''keyspaces'', PList
            [PDict [(''keyspace'', PStr ''orders''), (''cluster'', PStr ''main1'')],
             PDict [(''keyspace'', PStr ''billing''), (''cluster'', PStr ''main1'')]]),
         (''region'', PStr ''uswest1-devc'')]
        \<lparr>port_mappings_table = [(''main1'', [(''primary'', 3306)])],
         port_mapping_queries = 0\<rparr>)) = 2"
proof -
  let ?kss = "[PDict [(''keyspace'', PStr ''orders''), (''cluster'', PStr ''main1'')],
               PDict [(''keyspace'', PStr ''billing''), (''cluster'', PStr ''main1'')]]"
  let ?cfg = "[(''cells'', PList [PStr ''cellA'']), (''keyspaces'', PList ?kss),
               (''region'', PStr ''uswest1-devc'')]"
  let ?w = "\<lparr>port_mappings_table = [(''main1'', [(''primary'', 3306)])],
             port_mapping_queries = 0\<rparr>"
  let ?kds = "[(PStr ''orders'', ''main1''), (PStr ''billing'', ''main1'')]"
  have c: "dict_get ?cfg ''cells'' = PList [PStr ''cellA'']" by (simp add: dict_get_def)
  have k: "dict_get ?cfg ''keyspaces'' = PList ?kss" by (simp add: dict_get_def)
  have d: "map descriptor ?kss = map Some ?kds" by (simp add: descriptor_def py_getitem_def)
  have m: "\<forall>(n, c) \<in> set ?kds. map_of (port_mappings_table ?w) c \<noteq> None" by simp
  from generate_vitess_instance_config_fields[OF c k d m] obtain out where
    "generate_vitess_instance_config ?cfg ?w
       = (Inr (PDict out), ?w\<lparr>port_mapping_queries := port_mapping_queries ?w + length ?kss\<rparr>)"
    by blast
  then show ?thesis by simp
qed

text \<open>
  Claim C9, amended: the port-mapping collaborator is queried once per keyspace
  descriptor. On an instance description whose cells are a list and whose keyspaces are
  descriptors on clusters of the port mapping, the synthesis call returns and has made
  exactly \<open>len(keyspaces)\<close> queries, leaving the port mapping as it was.
\<close>

theorem port_mapping_queried_per_keyspace:
  assumes "dict_get cfg ''cells'' = PList cs"
    and "dict_get cfg ''keyspaces'' = PList kss"
    and "map descriptor kss = map Some kds"
    and "\<forall>(n, c) \<in> set kds. map_of (port_mappings_table w) c \<noteq> None"
  shows "\<exists>out. generate_vitess_instance_config cfg w
           = (Inr out, w\<lparr>port_mapping_queries := port_mapping_queries w + length kss\<rparr>)"
  using generate_vitess_instance_config_fields[OF assms] by blast

theorem port_mapping_queried_per_keyspace_witness:
  "\<exists>out.
     generate_vitess_instance_config
        [(''cells'', PList [PStr ''cellA'']),
         (''keyspaces'', PList
            [PDict [(''keyspace'', PStr ''orders''), (''cluster'', PStr ''main1'')],
             PDict [(''keyspace'', PStr ''billing''), (''cluster'', PStr ''main1'')],
             PDict [(''keyspace'', PStr ''users''), (''cluster'', PStr ''main1'')]]),
         (''region'', PStr ''uswest1-devc'')]
        \<lparr>port_mappings_table = [(''main1'', [(''primary'', 3306)])],
         port_mapping_queries = 4\<rparr>
     = (Inr out, \<lparr>port_mappings_table = [(''main1'', [(''primary'', 3306)])],
                  port_mapping_queries = 7\<rparr>)"
proof -
  let ?kss = "[PDict [(''keyspace'', PStr ''orders''), (''cluster'', PStr ''main1'')],
               PDict [(''keyspace'', PStr ''billing''), (''cluster'', PStr ''main1'')],
               PDict [(''keyspace'', PStr ''users''), (''cluster'', PStr ''main1'')]]"
  let ?cfg = "[(''cells'', PList [PStr ''cellA'']), (''keyspaces'', PList ?kss),
               (''region'', PStr ''uswest1-devc'')]"
  let ?w = "\<lparr>port_mappings_table = [(''main1'', [(''primary'', 3306)])],
             port_mapping_queries = 4\<rparr>"
  let ?kds = "[(PStr ''orders'', ''main1''), (PStr ''billing'', ''main1''),
               (PStr ''users'', ''main1'')]"
  have c: "dict_get ?cfg ''cells'' = PList [PStr ''cellA'']" by (simp add: dict_get_def)
  have k: "dict_get ?cfg ''keyspaces'' = PList ?kss" by (simp add: dict_get_def)
  have d: "map descriptor ?kss = map Some ?kds" by (simp add: descriptor_def py_getitem_def)
  have m: "\<forall>(n, c) \<in> set ?kds. map_of (port_mappings_table ?w) c \<noteq> None" by simp
  from port_mapping_queried_per_keyspace[OF c k d m]
  show ?thesis by simp
qed

text \<open>
  Claim C7. For an instance description with \<open>cells = ["cellA"]\<close>, the single keyspace
  \<open>{"keyspace": "orders", "cluster": "main1"}\<close> and the region \<open>uswest1-devc\<close>, and a
  port mapping that has, for the cluster \<open>main1\<close>, the role \<open>primary\<close> and not the role
  \<open>migration\<close>: the synthesis returns a tree whose keyspaces are the one keyspace
  \<open>orders\<close>, with exactly one tablet pool, for the cell \<open>cellA\<close> and the role \<open>primary\<close>
  (named \<open>orders_primary\<close>, of type \<open>externalmaster\<close>), whose throttle threshold is 3 and
  whose one \<open>VAULT_ADDR\<close> environment entry is
  \<open>https://vault-dre.uswest1-devc.yelpcorp.com:8200\<close>.
\<close>

theorem end_to_end_scenario:
  assumes "dict_get cfg ''cells'' = PList [PStr ''cellA'']"
    and "dict_get cfg ''keyspaces''
           = PList [PDict [(''keyspace'', PStr ''orders''), (''cluster'', PStr ''main1'')]]"
    and "dict_get cfg ''region'' = PStr ''uswest1-devc''"
    and "map_of (port_mappings_table w) ''main1'' = Some roles"
    and "map_of roles ''primary'' = Some port"
    and "map_of roles ''migration'' = None"
  shows "\<exists>out w' keyspace pool envs.
           generate_vitess_instance_config cfg w = (Inr out, w')
         \<and> py_getitem out ''keyspaces'' = Inr (PList [keyspace])
         \<and> py_getitem keyspace ''name'' = Inr (PStr ''orders'')
         \<and> py_at keyspace tablet_pools_path = Inr (PList [pool])
         \<and> py_getitem pool ''cell'' = Inr (PStr ''cellA'')
         \<and> py_getitem pool ''name'' = Inr (PStr ''orders_primary'')
         \<and> py_getitem pool ''type'' = Inr (PStr ''externalmaster'')
         \<and> py_at pool [Key ''vttablet'', Key ''extraFlags'', Key ''throttle_metrics_threshold'']
             = Inr (PStr ''3'')
         \<and> py_getitem pool ''extraEnv'' = Inr (PList envs)
         \<and> env_named ''VAULT_ADDR'' envs
             = [PDict [(''name'', PStr ''VAULT_ADDR''),
                       (''value'', PStr ''https://vault-dre.uswest1-devc.yelpcorp.com:8200'')]]"
proof -
  let ?kss = "[PDict [(''keyspace'', PStr ''orders''), (''cluster'', PStr ''main1'')]]"
  let ?kds = "[(PStr ''orders'', ''main1'')]"
  let ?pool = "dict_get cfg ''paasta_pool''"
  let ?pc = "dict_get cfg ''paasta_cluster''"
  let ?zk = "dict_get cfg ''zk_address''"
  let ?tp = "build_tablet_pool_config (PStr ''cellA'') (PStr ''orders'') (PStr ''orders'')
      (PInt port) ?pool ?pc ?zk (PStr ''read_replication_delay'') (PStr ''3'') (PStr ''primary'')
      (PStr ''uswest1-devc'')"
  have d: "map descriptor ?kss = map Some ?kds" by (simp add: descriptor_def py_getitem_def)
  have m: "\<forall>(n, c) \<in> set ?kds. map_of (port_mappings_table w) c \<noteq> None"
    by (simp add: assms(4))
  from generate_vitess_instance_config_fields[OF assms(1,2) d m] obtain out where
    g: "generate_vitess_instance_config cfg w
       = (Inr (PDict out), w\<lparr>port_mapping_queries := port_mapping_queries w + length ?kss\<rparr>)"
    and k: "map_of out ''keyspaces''
       = Some (PList (map (\<lambda>(n, c). keyspace_spec n
                (keyspace_pools (port_mappings_table w) c [PStr ''cellA''] n ?pool ?pc ?zk
                   (dict_get cfg ''region''))) ?kds))"
    by blast
  have pol: "throttle_policy ''primary'' (PStr ''main1'') = Inr (''read_replication_delay'', ''3'')"
    by (simp add: throttle_policy_str)
  have pools: "keyspace_pools (port_mappings_table w) ''main1'' [PStr ''cellA''] (PStr ''orders'')
                 ?pool ?pc ?zk (PStr ''uswest1-devc'') = [projr ?tp]"
    by (simp add: keyspace_pools_def TABLET_TYPES_def role_pools_def assms(4,5,6) pol)
  from tablet_pool_obs[of "PStr ''cellA''" "PStr ''orders''" "PStr ''orders''" "PInt port"
      ?pool ?pc ?zk "PStr ''read_replication_delay''" "PStr ''3''" "PStr ''primary''"
      "PStr ''uswest1-devc''"]
  obtain config where tp: "?tp = Inr config"
    and o: "py_getitem config ''cell'' = Inr (PStr ''cellA'')"
      "py_getitem config ''name'' = Inr (PStr ''orders_primary'')"
      "py_getitem config ''type'' = Inr (PStr ''externalmaster'')"
      "py_at config [Key ''vttablet'', Key ''extraFlags'', Key ''throttle_metrics_threshold'']
         = Inr (PStr ''3'')"
    and e: "py_getitem config ''extraEnv''
         = Inr (PList ([PDict [(''name'', PStr ''PAASTA_POD_IP''),
                               (''valueFrom'', PDict [(''fieldRef'',
                                  PDict [(''fieldPath'', PStr ''status.podIP'')])])],
                        PDict [(''name'', PStr ''PAASTA_CLUSTER''), (''value'', ?pc)]]
                  @ map (\<lambda>env. projr (vttablet_env_entry ?zk (PStr ''orders'') (PStr ''orders'')
                             (PStr ''uswest1-devc'') env)) VTTABLET_EXTRA_ENV))"
    by (auto simp: py_str_def)
  have v: "env_named ''VAULT_ADDR''
             ([PDict [(''name'', PStr ''PAASTA_POD_IP''),
                               (''valueFrom'', PDict [(''fieldRef'',
                                  PDict [(''fieldPath'', PStr ''status.podIP'')])])],
                        PDict [(''name'', PStr ''PAASTA_CLUSTER''), (''value'', ?pc)]]
                  @ map (\<lambda>env. projr (vttablet_env_entry ?zk (PStr ''orders'') (PStr ''orders'')
                             (PStr ''uswest1-devc'') env)) VTTABLET_EXTRA_ENV)
           = [PDict [(''name'', PStr ''VAULT_ADDR''),
                     (''value'', PStr ''https://vault-dre.uswest1-devc.yelpcorp.com:8200'')]]"
    unfolding vttablet_env_entries
    by (simp add: env_named_def py_getitem_def py_str_def)
  have ks: "py_getitem (PDict out) ''keyspaces''
      = Inr (PList [keyspace_spec (PStr ''orders'') [config]])"
    using k pools tp by (simp add: py_getitem_def assms(3))
  show ?thesis
    using g ks o e v
    by (intro exI[of _ "PDict out"] exI[of _ "keyspace_spec (PStr ''orders'') [config]"]
          exI[of _ config] exI conjI)
       (simp_all only: keyspace_spec_name keyspace_spec_pools)
qed

theorem end_to_end_scenario_witness:
  "\<exists>out w' keyspace pool envs.
      generate_vitess_instance_config
        [(''cpus'', PFloat ''0.1''), (''mem'', PInt 256), (''deploy_group'', PStr ''prod.everything''),
         (''zk_address'', PStr ''zk:2181''), (''paasta_pool'', PStr ''default''),
         (''paasta_cluster'', PStr ''norcal-devc''),
         (''cells'', PList [PStr ''cellA'']),
         (''keyspaces'', PList
            [PDict [(''keyspace'', PStr ''orders''), (''cluster'', PStr ''main1'')]]),
         (''region'', PStr ''uswest1-devc'')]
        \<lparr>port_mappings_table = [(''main1'', [(''primary'', 3306)])],
         port_mapping_queries = 0\<rparr> = (Inr out, w')
    \<and> py_getitem out ''keyspaces'' = Inr (PList [keyspace])
    \<and> py_getitem keyspace ''name'' = Inr (PStr ''orders'')
    \<and> py_at keyspace tablet_pools_path = Inr (PList [pool])
    \<and> py_getitem pool ''cell'' = Inr (PStr ''cellA'')
    \<and> py_getitem pool ''name'' = Inr (PStr ''orders_primary'')
    \<and> py_getitem pool ''type'' = Inr (PStr ''externalmaster'')
    \<and> py_at pool [Key ''vttablet'', Key ''extraFlags'', Key ''throttle_metrics_threshold'']
        = Inr (PStr ''3'')
    \<and> py_getitem pool ''extraEnv'' = Inr (PList envs)
    \<and> env_named ''VAULT_ADDR'' envs
        = [PDict [(''name'', PStr ''VAULT_ADDR''),
                  (''value'', PStr ''https://vault-dre.uswest1-devc.yelpcorp.com:8200'')]]"
proof -
  let ?cfg = "[(''cpus'', PFloat ''0.1''), (''mem'', PInt 256),
         (''deploy_group'', PStr ''prod.everything''),
         (''zk_address'', PStr ''zk:2181''), (''paasta_pool'', PStr ''default''),
         (''paasta_cluster'', PStr ''norcal-devc''),
         (''cells'', PList [PStr ''cellA'']),
         (''keyspaces'', PList
            [PDict [(''keyspace'', PStr ''orders''), (''cluster'', PStr ''main1'')]]),
         (''region'', PStr ''uswest1-devc'')]"
  let ?w = "\<lparr>port_mappings_table = [(''main1'', [(''primary'', 3306)])],
             port_mapping_queries = 0\<rparr>"
  have a: "dict_get ?cfg ''cells'' = PList [PStr ''cellA'']" by (simp add: dict_get_def)
  have b: "dict_get ?cfg ''keyspaces''
           = PList [PDict [(''keyspace'', PStr ''orders''), (''cluster'', PStr ''main1'')]]"
    by (simp add: dict_get_def)
  have c: "dict_get ?cfg ''region'' = PStr ''uswest1-devc''" by (simp add: dict_get_def)
  have d: "map_of (port_mappings_table ?w) ''main1'' = Some [(''primary'', 3306)]" by simp
  have e: "map_of [(''primary'', 3306::int)] ''primary'' = Some 3306" by simp
  have f: "map_of [(''primary'', 3306::int)] ''migration'' = None" by simp
  show ?thesis
    by (rule end_to_end_scenario[OF a b c d e f])
qed

section \<open>Claims on the throttling policy and on the tablet roles\<close>

text \<open>
  Claim C2. For every cluster name, the policy derivation gives tablet type
  \<open>migration\<close> the source \<open>migration_replication_delay\<close> and the threshold 7200, and
  tablet type \<open>primary\<close> the source \<open>read_replication_delay\<close> and the threshold 30 when
  the cluster name starts with \<open>refresh\<close> or \<open>sanitized\<close>, and 3 for any other cluster
  name; and \<open>build_keyspaces_config\<close> hands them to the tablet pools: in the specification
  of every keyspace, each pool of a tablet type has the metrics query on that source and
  that threshold in the flags of its tablet.
\<close>

theorem throttle_policy_thresholds:
  assumes "map descriptor kss = map Some kds"
    and "\<forall>(n, c) \<in> set kds. map_of (port_mappings_table w) c \<noteq> None"
  shows "throttle_policy ''migration'' (PStr cluster)
           = Inr (''migration_replication_delay'', ''7200'')
       \<and> throttle_policy ''primary'' (PStr cluster)
           = Inr (''read_replication_delay'',
                  if take (length ''refresh'') cluster = ''refresh''
                     \<or> take (length ''sanitized'') cluster = ''sanitized'' then ''30'' else ''3'')
       \<and> (\<exists>out w'.
             build_keyspaces_config (PList cs) (PList kss) paasta_pool paasta_cluster zk_address
               region w = (Inr (PList out), w')
           \<and> map (\<lambda>ks. ebind (py_at ks tablet_pools_path) (\<lambda>pools.
                         ebind (py_iter pools) (\<lambda>pools.
                           Inr (map (\<lambda>p.
                             (py_getitem p ''name'',
                              py_at p [Key ''vttablet'', Key ''extraFlags'',
                                       Key ''throttle_metrics_query''],
                              py_at p [Key ''vttablet'', Key ''extraFlags'',
                                       Key ''throttle_metrics_threshold''])) pools)))) out
             = map (\<lambda>(n, c). Inr
                 ((case map_of (case map_of (port_mappings_table w) c of
                                  None \<Rightarrow> [] | Some roles \<Rightarrow> roles) ''primary'' of
                     None \<Rightarrow> []
                   | Some port \<Rightarrow>
                       map (\<lambda>cell.
                         (Inr (PStr (py_str n @ ''_primary'')),
                          Inr (PStr ''select max_replication_delay from max_mysql_replication_delay.read_replication_delay;''),
                          Inr (PStr (if take (length ''refresh'') c = ''refresh''
                                        \<or> take (length ''sanitized'') c = ''sanitized''
                                     then ''30'' else ''3'')))) cs)
                  @ (case map_of (case map_of (port_mappings_table w) c of
                                    None \<Rightarrow> [] | Some roles \<Rightarrow> roles) ''migration'' of
                       None \<Rightarrow> []
                     | Some port \<Rightarrow>
                         map (\<lambda>cell.
                           (Inr (PStr (py_str n @ ''_migration'')),
                            Inr (PStr ''select max_replication_delay from max_mysql_replication_delay.migration_replication_delay;''),
                            Inr (PStr ''7200''))) cs))) kds)"
proof -
  have it: "py_iter (PList cs) = Inr cs" by (simp add: py_iter_def)
  have a: "throttle_policy ''migration'' (PStr cluster)
             = Inr (''migration_replication_delay'', ''7200'')"
    by (simp add: throttle_policy_str)
  have b: "throttle_policy ''primary'' (PStr cluster)
           = Inr (''read_replication_delay'',
                  if take (length ''refresh'') cluster = ''refresh''
                     \<or> take (length ''sanitized'') cluster = ''sanitized'' then ''30'' else ''3'')"
    by (simp only: throttle_policy_str) simp
  have p: "map (\<lambda>p. (py_getitem p ''name'',
                 py_at p [Key ''vttablet'', Key ''extraFlags'', Key ''throttle_metrics_query''],
                 py_at p [Key ''vttablet'', Key ''extraFlags'',
                          Key ''throttle_metrics_threshold'']))
             (keyspace_pools m c cs n paasta_pool paasta_cluster zk_address region)
        = (case map_of (case map_of m c of None \<Rightarrow> [] | Some roles \<Rightarrow> roles) ''primary'' of
                     None \<Rightarrow> []
                   | Some port \<Rightarrow>
                       map (\<lambda>cell.
                         (Inr (PStr (py_str n @ ''_primary'')),
                          Inr (PStr ''select max_replication_delay from max_mysql_replication_delay.read_replication_delay;''),
                          Inr (PStr (if take (length ''refresh'') c = ''refresh''
                                        \<or> take (length ''sanitized'') c = ''sanitized''
                                     then ''30'' else ''3'')))) cs)
                  @ (case map_of (case map_of m c of None \<Rightarrow> [] | Some roles \<Rightarrow> roles)
                            ''migration'' of
                       None \<Rightarrow> []
                     | Some port \<Rightarrow>
                         map (\<lambda>cell.
                           (Inr (PStr (py_str n @ ''_migration'')),
                            Inr (PStr ''select max_replication_delay from max_mysql_replication_delay.migration_replication_delay;''),
                            Inr (PStr ''7200''))) cs)" for m c n
    unfolding keyspace_pools_def TABLET_TYPES_def
    by (simp only: list.map concat.simps append_Nil2 map_append role_pools_policy)
       (simp split: option.splits)
  have c: "\<exists>out w'.
             build_keyspaces_config (PList cs) (PList kss) paasta_pool paasta_cluster zk_address
               region w = (Inr (PList out), w')
           \<and> map (\<lambda>ks. ebind (py_at ks tablet_pools_path) (\<lambda>pools.
                         ebind (py_iter pools) (\<lambda>pools.
                           Inr (map (\<lambda>p.
                             (py_getitem p ''name'',
                              py_at p [Key ''vttablet'', Key ''extraFlags'',
                                       Key ''throttle_metrics_query''],
                              py_at p [Key ''vttablet'', Key ''extraFlags'',
                                       Key ''throttle_metrics_threshold''])) pools)))) out
             = map (\<lambda>(n, c). Inr
                 ((case map_of (case map_of (port_mappings_table w) c of
                                  None \<Rightarrow> [] | Some roles \<Rightarrow> roles) ''primary'' of
                     None \<Rightarrow> []
                   | Some port \<Rightarrow>
                       map (\<lambda>cell.
                         (Inr (PStr (py_str n @ ''_primary'')),
                          Inr (PStr ''select max_replication_delay from max_mysql_replication_delay.read_replication_delay;''),
                          Inr (PStr (if take (length ''refresh'') c = ''refresh''
                                        \<or> take (length ''sanitized'') c = ''sanitized''
                                     then ''30'' else ''3'')))) cs)
                  @ (case map_of (case map_of (port_mappings_table w) c of
                                    None \<Rightarrow> [] | Some roles \<Rightarrow> roles) ''migration'' of
                       None \<Rightarrow> []
                     | Some port \<Rightarrow>
                         map (\<lambda>cell.
                           (Inr (PStr (py_str n @ ''_migration'')),
                            Inr (PStr ''select max_replication_delay from max_mysql_replication_delay.migration_replication_delay;''),
                            Inr (PStr ''7200''))) cs))) kds"
    unfolding build_keyspaces_config_eq[OF assms it]
    by (intro exI conjI, rule refl)
       (simp only: map_map comp_def case_prod_unfold keyspace_spec_pools ebind_Inr py_iter_def
          pyval.case p)
  from a b c show ?thesis by (intro conjI)
qed

theorem throttle_policy_thresholds_witness:
  "throttle_policy ''migration'' (PStr ''main1'') = Inr (''migration_replication_delay'', ''7200'')
   \<and> throttle_policy ''primary'' (PStr ''main1'') = Inr (''read_replication_delay'', ''3'')
   \<and> (\<exists>out w'.
         build_keyspaces_config (PList [PStr ''cellA''])
           (PList [PDict [(''keyspace'', PStr ''orders''), (''cluster'', PStr ''refresh1'')],
                   PDict [(''keyspace'', PStr ''billing''), (''cluster'', PStr ''main1'')],
                   PDict [(''keyspace'', PStr ''users''), (''cluster'', PStr ''sanitized2'')]])
           (PStr ''default'') (PStr ''norcal-devc'') (PStr ''zk:2181'') (PStr ''uswest1-devc'')
           \<lparr>port_mappings_table =
              [(''refresh1'', [(''primary'', 3306), (''migration'', 3307)]),
               (''main1'', [(''primary'', 3308)]),
               (''sanitized2'', [(''primary'', 3309)])],
            port_mapping_queries = 0\<rparr>
           = (Inr (PList out), w')
       \<and> map (\<lambda>ks. ebind (py_at ks tablet_pools_path) (\<lambda>pools.
                     ebind (py_iter pools) (\<lambda>pools.
                       Inr (map (\<lambda>p.
                         (py_getitem p ''name'',
                          py_at p [Key ''vttablet'', Key ''extraFlags'',
                                   Key ''throttle_metrics_query''],
                          py_at p [Key ''vttablet'', Key ''extraFlags'',
                                   Key ''throttle_metrics_threshold''])) pools)))) out
           = [Inr [(Inr (PStr ''orders_primary''),
                    Inr (PStr ''select max_replication_delay from max_mysql_replication_delay.read_replication_delay;''),
                    Inr (PStr ''30'')),
                   (Inr (PStr ''orders_migration''),
                    Inr (PStr ''select max_replication_delay from max_mysql_replication_delay.migration_replication_delay;''),
                    Inr (PStr ''7200''))],
              Inr [(Inr (PStr ''billing_primary''),
                    Inr (PStr ''select max_replication_delay from max_mysql_replication_delay.read_replication_delay;''),
                    Inr (PStr ''3''))],
              Inr [(Inr (PStr ''users_primary''),
                    Inr (PStr ''select max_replication_delay from max_mysql_replication_delay.read_replication_delay;''),
                    Inr (PStr ''30''))]])"
proof -
  let ?w = "\<lparr>port_mappings_table =
              [(''refresh1'', [(''primary'', 3306), (''migration'', 3307)]),
               (''main1'', [(''primary'', 3308)]),
               (''sanitized2'', [(''primary'', 3309)])],
            port_mapping_queries = 0\<rparr>"
  let ?kss = "[PDict [(''keyspace'', PStr ''orders''), (''cluster'', PStr ''refresh1'')],
               PDict [(''keyspace'', PStr ''billing''), (''cluster'', PStr ''main1'')],
               PDict [(''keyspace'', PStr ''users''), (''cluster'', PStr ''sanitized2'')]]"
  let ?kds = "[(PStr ''orders'', ''refresh1''), (PStr ''billing'', ''main1''),
               (PStr ''users'', ''sanitized2'')]"
  have a: "map descriptor ?kss = map Some ?kds"
    by (simp add: descriptor_def py_getitem_def)
  have b: "\<forall>(n, c) \<in> set ?kds. map_of (port_mappings_table ?w) c \<noteq> None"
    by simp
  from throttle_policy_thresholds[OF a b, of "''main1''" "[PStr ''cellA'']"
      "PStr ''default''" "PStr ''norcal-devc''" "PStr ''zk:2181''" "PStr ''uswest1-devc''"]
  show ?thesis by (simp add: py_str_def)
qed

text \<open>
  Claim C5, as stated: for a tablet role outside \<open>primary\<close> and \<open>migration\<close> the
  synthesis fails with a configuration error. It does not hold: with the role
  \<open>reporting\<close> in the port mapping of the keyspace's cluster, the synthesis raises
  nothing and returns its tree.
\<close>

theorem unrecognized_role_counterexample:
  "\<not> isl (fst (generate_vitess_instance_config
        [(''cells'', PList [PStr ''cellA'']),
         (''keyspaces'', PList
            [PDict [(''keyspace'', PStr ''orders''), (''cluster'', PStr ''main1'')]]),
         (''region'', PStr ''uswest1-devc'')]
        \<lparr>port_mappings_table = [(''main1'', [(''primary'', 3306), (''reporting'', 3309)])],
         port_mapping_queries = 0\<rparr>))"
proof -
  let ?kss = "[PDict [(''keyspace'', PStr ''orders''), (''cluster'', PStr ''main1'')]]"
  let ?cfg = "[(''cells'', PList [PStr ''cellA'']), (''keyspaces'', PList ?kss),
               (''region'', PStr ''uswest1-devc'')]"
  let ?w = "\<lparr>port_mappings_table = [(''main1'', [(''primary'', 3306), (''reporting'', 3309)])],
             port_mapping_queries = 0\<rparr>"
  let ?kds = "[(PStr ''orders'', ''main1'')]"
  have c: "dict_get ?cfg ''cells'' = PList [PStr ''cellA'']" by (simp add: dict_get_def)
  have k: "dict_get ?cfg ''keyspaces'' = PList ?kss" by (simp add: dict_get_def)
  have d: "map descriptor ?kss = map Some ?kds" by (simp add: descriptor_def py_getitem_def)
  have m: "\<forall>(n, c) \<in> set ?kds. map_of (port_mappings_table ?w) c \<noteq> None" by simp
  from generate_vitess_instance_config_fields[OF c k d m] obtain out where
    "generate_vitess_instance_config ?cfg ?w
       = (Inr (PDict out), ?w\<lparr>port_mapping_queries := port_mapping_queries ?w + length ?kss\<rparr>)"
    by blast
  then show ?thesis by simp
qed

text \<open>
  Claim C5, amended: for every tablet role outside \<open>primary\<close> and \<open>migration\<close>, whether
  the port mapping lists it or not, the synthesis raises no configuration error on an
  instance description whose cells are a list and whose keyspaces are descriptors on
  clusters of the port mapping: it returns, and it produces no tablet-pool specification
  for that role (in no keyspace is a pool named \<open>{keyspace}_{role}\<close>).
\<close>

theorem unrecognized_role_ignored:
  assumes "dict_get cfg ''cells'' = PList cs"
    and "dict_get cfg ''keyspaces'' = PList kss"
    and "map descriptor kss = map Some kds"
    and "\<forall>(n, c) \<in> set kds. map_of (port_mappings_table w) c \<noteq> None"
    and "role \<notin> set TABLET_TYPES"
  shows "\<exists>out w' keyspaces.
           generate_vitess_instance_config cfg w = (Inr out, w')
         \<and> py_getitem out ''keyspaces'' = Inr (PList keyspaces)
         \<and> length keyspaces = length kds
         \<and> (\<forall>i < length kds. \<exists>pools.
               py_at (keyspaces ! i) tablet_pools_path = Inr (PList pools)
             \<and> filter (\<lambda>p. py_getitem p ''name''
                              = Inr (PStr (py_str (fst (kds ! i)) @ ''_'' @ role))) pools = [])"
proof -
  let ?pools = "\<lambda>n c. keyspace_pools (port_mappings_table w) c cs n (dict_get cfg ''paasta_pool'')
                   (dict_get cfg ''paasta_cluster'') (dict_get cfg ''zk_address'')
                   (dict_get cfg ''region'')"
  let ?ks = "map (\<lambda>(n, c). keyspace_spec n (?pools n c)) kds"
  from generate_vitess_instance_config_fields[OF assms(1-4)] obtain out where
    g: "generate_vitess_instance_config cfg w
       = (Inr (PDict out), w\<lparr>port_mapping_queries := port_mapping_queries w + length kss\<rparr>)"
    and k: "map_of out ''keyspaces'' = Some (PList ?ks)"
    by blast
  have f: "filter (\<lambda>p. py_getitem p ''name'' = Inr (PStr (py_str n @ ''_'' @ role))) (?pools n c)
             = []" for n c
  proof -
    have "py_getitem p ''name'' \<noteq> Inr (PStr (py_str n @ ''_'' @ role))"
      if "p \<in> set (role_pools roles c cs n (dict_get cfg ''paasta_pool'')
                   (dict_get cfg ''paasta_cluster'') (dict_get cfg ''zk_address'')
                   (dict_get cfg ''region'') t)" and "t \<in> set TABLET_TYPES" for p roles t
      using role_pools_name[OF that(1)] that(2) assms(5) by auto
    then show ?thesis
      by (auto simp: keyspace_pools_def filter_empty_conv)
  qed
  have "\<exists>pools. py_at (?ks ! i) tablet_pools_path = Inr (PList pools)
             \<and> filter (\<lambda>p. py_getitem p ''name''
                              = Inr (PStr (py_str (fst (kds ! i)) @ ''_'' @ role))) pools = []"
    if "i < length kds" for i
    using that f[of "fst (kds ! i)" "snd (kds ! i)"]
    by (simp add: case_prod_unfold keyspace_spec_pools)
  with g k show ?thesis
    by (auto simp: py_getitem_def)
qed

theorem unrecognized_role_ignored_witness:
  "\<exists>out w' keyspaces pools.
      generate_vitess_instance_config
        [(''cells'', PList [PStr ''cellA'']),
         (''keyspaces'', PList
            [PDict [(''keyspace'', PStr ''orders''), (''cluster'', PStr ''main1'')]]),
         (''region'', PStr ''uswest1-devc'')]
        \<lparr>port_mappings_table = [(''main1'', [(''primary'', 3306), (''reporting'', 3309)])],
         port_mapping_queries = 0\<rparr> = (Inr out, w')
    \<and> py_getitem out ''keyspaces'' = Inr (PList keyspaces)
    \<and> length keyspaces = 1
    \<and> py_at (keyspaces ! 0) tablet_pools_path = Inr (PList pools)
    \<and> filter (\<lambda>p. py_getitem p ''name'' = Inr (PStr ''orders_reporting'')) pools = []"
proof -
  let ?kss = "[PDict [(''keyspace'', PStr ''orders''), (''cluster'', PStr ''main1'')]]"
  let ?cfg = "[(''cells'', PList [PStr ''cellA'']), (''keyspaces'', PList ?kss),
               (''region'', PStr ''uswest1-devc'')]"
  let ?w = "\<lparr>port_mappings_table = [(''main1'', [(''primary'', 3306), (''reporting'', 3309)])],
             port_mapping_queries = 0\<rparr>"
  let ?kds = "[(PStr ''orders'', ''main1'')]"
  have c: "dict_get ?cfg ''cells'' = PList [PStr ''cellA'']" by (simp add: dict_get_def)
  have k: "dict_get ?cfg ''keyspaces'' = PList ?kss" by (simp add: dict_get_def)
  have d: "map descriptor ?kss = map Some ?kds" by (simp add: descriptor_def py_getitem_def)
  have m: "\<forall>(n, c) \<in> set ?kds. map_of (port_mappings_table ?w) c \<noteq> None" by simp
  have r: "''reporting'' \<notin> set TABLET_TYPES" by (simp add: TABLET_TYPES_def)
  from unrecognized_role_ignored[OF c k d m r]
  show ?thesis by (simp add: py_str_def)
qed


section \<open>Claims on absent fields of the instance description\<close>

text \<open>
  Claim C4, as stated, for the field \<open>cells\<close> and for the field \<open>keyspaces\<close>. An instance
  description that has every field but \<open>cells\<close> makes the synthesis raise \<open>TypeError\<close>
  (the comprehension \<open>for cell in cells\<close> iterates \<open>None\<close>), and so does one that has
  every field but \<open>keyspaces\<close> (the loop \<open>for keyspace_config in keyspaces\<close>): for these
  two fields no placeholder is propagated and the call does not return normally.
\<close>

theorem absent_field_placeholder_counterexample:
  "fst (generate_vitess_instance_config
          [(''cpus'', PFloat ''0.1''), (''mem'', PInt 256),
           (''deploy_group'', PStr ''prod.everything''),
           (''zk_address'', PStr ''zk:2181''), (''paasta_pool'', PStr ''default''),
           (''paasta_cluster'', PStr ''norcal-devc''),
           (''keyspaces'', PList
              [PDict [(''keyspace'', PStr ''orders''), (''cluster'', PStr ''main1'')]]),
           (''region'', PStr ''uswest1-devc'')]
          \<lparr>port_mappings_table = [(''main1'', [(''primary'', 3306)])],
           port_mapping_queries = 0\<rparr>) = Inl TypeError
 \<and> fst (generate_vitess_instance_config
          [(''cpus'', PFloat ''0.1''), (''mem'', PInt 256),
           (''deploy_group'', PStr ''prod.everything''),
           (''zk_address'', PStr ''zk:2181''), (''paasta_pool'', PStr ''default''),
           (''paasta_cluster'', PStr ''norcal-devc''),
           (''cells'', PList [PStr ''cellA'']),
           (''region'', PStr ''uswest1-devc'')]
          \<lparr>port_mappings_table = [(''main1'', [(''primary'', 3306)])],
           port_mapping_queries = 0\<rparr>) = Inl TypeError"
proof (rule conjI)
  let ?w = "\<lparr>port_mappings_table = [(''main1'', [(''primary'', 3306)])],
             port_mapping_queries = 0\<rparr>"
  show "fst (generate_vitess_instance_config
          [(''cpus'', PFloat ''0.1''), (''mem'', PInt 256),
           (''deploy_group'', PStr ''prod.everything''),
           (''zk_address'', PStr ''zk:2181''), (''paasta_pool'', PStr ''default''),
           (''paasta_cluster'', PStr ''norcal-devc''),
           (''keyspaces'', PList
              [PDict [(''keyspace'', PStr ''orders''), (''cluster'', PStr ''main1'')]]),
           (''region'', PStr ''uswest1-devc'')] ?w) = Inl TypeError"
    by (simp add: generate_vitess_instance_config_def dict_get_def py_iter_def ebind_Inl)
next
  let ?w = "\<lparr>port_mappings_table = [(''main1'', [(''primary'', 3306)])],
             port_mapping_queries = 0\<rparr>"
  let ?pool = "PStr ''default''"
  let ?pc = "PStr ''norcal-devc''"
  let ?cfg = "[(''cpus'', PFloat ''0.1''), (''mem'', PInt 256),
           (''deploy_group'', PStr ''prod.everything''),
           (''zk_address'', PStr ''zk:2181''), (''paasta_pool'', PStr ''default''),
           (''paasta_cluster'', PStr ''norcal-devc''),
           (''cells'', PList [PStr ''cellA'']),
           (''region'', PStr ''uswest1-devc'')]"
  obtain dc where dc: "build_vitess_dashboard_config (PList [PStr ''cellA'']) ?pool ?pc
      (PStr ''zk:2181'') = Inr dc"
    using build_vitess_dashboard_config_total by blast
  have ks: "build_keyspaces_config (PList [PStr ''cellA'']) PNone ?pool ?pc (PStr ''zk:2181'')
      (PStr ''uswest1-devc'') ?w = (Inl TypeError, ?w)"
    by (simp add: build_keyspaces_config_def py_iter_def)
  have g: "dict_get ?cfg ''cells'' = PList [PStr ''cellA'']" "dict_get ?cfg ''keyspaces'' = PNone"
    "dict_get ?cfg ''paasta_pool'' = ?pool" "dict_get ?cfg ''paasta_cluster'' = ?pc"
    "dict_get ?cfg ''zk_address'' = PStr ''zk:2181''"
    "dict_get ?cfg ''region'' = PStr ''uswest1-devc''"
    by (simp_all add: dict_get_def)
  show "fst (generate_vitess_instance_config ?cfg ?w) = Inl TypeError"
    unfolding generate_vitess_instance_config_def Let_def g cells_comprehension dc ks
    by (simp only: sum.case prod.case fst_conv)
qed

text \<open>
  Claim C4, amended. On an instance description whose \<open>cells\<close> are a list and whose
  \<open>keyspaces\<close> are descriptors on clusters of the port mapping, the synthesis returns a
  tree, and each of the seven fields \<open>cpus\<close>, \<open>mem\<close>, \<open>deploy_group\<close>, \<open>zk_address\<close>,
  \<open>paasta_pool\<close>, \<open>paasta_cluster\<close> and \<open>region\<close> that is absent from the description leaves
  a placeholder in the tree: \<open>None\<close> at \<open>cpus\<close>, at \<open>mem\<close>, at \<open>deploy_group\<close>, at the
  address of the global lock server, at the pool label and at the cluster label of
  \<open>vtadmin\<close>; and, for an absent \<open>region\<close>, the text \<open>None\<close> in the vault address
  \<open>https://vault-dre.None.yelpcorp.com:8200\<close> of the gateway of every cell.
\<close>

theorem absent_scalar_field_placeholder:
  assumes "dict_get cfg ''cells'' = PList cs"
    and "dict_get cfg ''keyspaces'' = PList kss"
    and "map descriptor kss = map Some kds"
    and "\<forall>(n, c) \<in> set kds. map_of (port_mappings_table w) c \<noteq> None"
  shows "\<exists>out w'. generate_vitess_instance_config cfg w = (Inr out, w')
      \<and> (map_of cfg ''cpus'' = None \<longrightarrow> py_getitem out ''cpus'' = Inr PNone)
      \<and> (map_of cfg ''mem'' = None \<longrightarrow> py_getitem out ''mem'' = Inr PNone)
      \<and> (map_of cfg ''deploy_group'' = None \<longrightarrow> py_getitem out ''deploy_group'' = Inr PNone)
      \<and> (map_of cfg ''zk_address'' = None \<longrightarrow>
           py_at out [Key ''globalLockserver'', Key ''external'', Key ''address''] = Inr PNone)
      \<and> (map_of cfg ''paasta_pool'' = None \<longrightarrow>
           py_at out [Key ''vtadmin'', Key ''extraLabels'', Key ''paasta.yelp.com/pool'']
             = Inr PNone)
      \<and> (map_of cfg ''paasta_cluster'' = None \<longrightarrow>
           py_at out [Key ''vtadmin'', Key ''extraLabels'', Key ''paasta.yelp.com/cluster'']
             = Inr PNone)
      \<and> (map_of cfg ''region'' = None \<longrightarrow>
           (\<forall>i < length cs.
              py_at out [Key ''cells'', Idx i, Key ''gateway'', Key ''extraFlags'',
                         Key ''mysql_auth_vault_addr'']
                = Inr (PStr ''https://vault-dre.None.yelpcorp.com:8200'')))"
proof -
  let ?pool = "dict_get cfg ''paasta_pool''"
  let ?pc = "dict_get cfg ''paasta_cluster''"
  let ?region = "dict_get cfg ''region''"
  from generate_vitess_instance_config_fields[OF assms] obtain out where
    g: "generate_vitess_instance_config cfg w
       = (Inr (PDict out), w\<lparr>port_mapping_queries := port_mapping_queries w + length kss\<rparr>)"
    and f: "map_of out ''cpus'' = Some (dict_get cfg ''cpus'')"
      "map_of out ''mem'' = Some (dict_get cfg ''mem'')"
      "map_of out ''deploy_group'' = Some (dict_get cfg ''deploy_group'')"
    and z: "map_of out ''globalLockserver''
           = Some (PDict [(''external'', PDict
                [(''implementation'', PStr TOPO_IMPLEMENTATION),
                 (''address'', dict_get cfg ''zk_address''),
                 (''rootPath'', PStr TOPO_GLOBAL_ROOT)])])"
    and c: "map_of out ''cells''
           = Some (PList (map (\<lambda>cell. projr (build_cell_config cell ?pool ?pc ?region)) cs))"
    and a: "map_of out ''vtadmin'' = Some (build_vt_admin_config (PList cs) ?pool ?pc)"
    by blast
  have 1: "map_of cfg ''cpus'' = None \<longrightarrow> py_getitem (PDict out) ''cpus'' = Inr PNone"
    using f(1) by (simp add: py_getitem_def dict_get_def)
  have 2: "map_of cfg ''mem'' = None \<longrightarrow> py_getitem (PDict out) ''mem'' = Inr PNone"
    using f(2) by (simp add: py_getitem_def dict_get_def)
  have 3: "map_of cfg ''deploy_group'' = None
      \<longrightarrow> py_getitem (PDict out) ''deploy_group'' = Inr PNone"
    using f(3) by (simp add: py_getitem_def dict_get_def)
  have 4: "map_of cfg ''zk_address'' = None \<longrightarrow>
      py_at (PDict out) [Key ''globalLockserver'', Key ''external'', Key ''address'']
        = Inr PNone"
    using z by (simp add: py_getitem_def dict_get_def ebind_Inr)
  have 5: "map_of cfg ''paasta_pool'' = None \<longrightarrow>
      py_at (PDict out) [Key ''vtadmin'', Key ''extraLabels'', Key ''paasta.yelp.com/pool'']
        = Inr PNone"
    using a
    by (simp add: py_getitem_def dict_get_def ebind_Inr build_vt_admin_config_def
        build_extra_labels_def)
  have 6: "map_of cfg ''paasta_cluster'' = None \<longrightarrow>
      py_at (PDict out) [Key ''vtadmin'', Key ''extraLabels'', Key ''paasta.yelp.com/cluster'']
        = Inr PNone"
    using a
    by (simp add: py_getitem_def dict_get_def ebind_Inr build_vt_admin_config_def
        build_extra_labels_def)
  have 7: "map_of cfg ''region'' = None \<longrightarrow>
      (\<forall>i < length cs.
         py_at (PDict out) [Key ''cells'', Idx i, Key ''gateway'', Key ''extraFlags'',
                            Key ''mysql_auth_vault_addr'']
           = Inr (PStr ''https://vault-dre.None.yelpcorp.com:8200''))"
  proof (intro impI allI)
    fix i
    assume r: "map_of cfg ''region'' = None" and i: "i < length cs"
    have rn: "?region = PNone" using r by (simp add: dict_get_def)
    obtain cc where cc: "build_cell_config (cs ! i) ?pool ?pc PNone = Inr cc"
      using build_cell_config_total by blast
    have "py_at cc [Key ''gateway'', Key ''extraFlags'', Key ''mysql_auth_vault_addr'']
          = Inr (PStr (''https://vault-dre.'' @ py_str PNone @ ''.yelpcorp.com:8200''))"
      using cell_vault_addr[of "cs ! i" ?pool ?pc PNone] unfolding cc by (simp only: ebind_Inr)
    then have v: "py_at cc [Key ''gateway'', Key ''extraFlags'', Key ''mysql_auth_vault_addr'']
          = Inr (PStr ''https://vault-dre.None.yelpcorp.com:8200'')"
      by (simp add: py_str_def)
    have p1: "py_getitem (PDict out) ''cells''
          = Inr (PList (map (\<lambda>cell. projr (build_cell_config cell ?pool ?pc ?region)) cs))"
      using c by (simp add: py_getitem_def)
    have p2: "py_index (PList (map (\<lambda>cell. projr (build_cell_config cell ?pool ?pc ?region)) cs)) i
          = Inr cc"
      using i cc by (simp add: py_index_def rn)
    have "py_at (PDict out) [Key ''cells'', Idx i, Key ''gateway'', Key ''extraFlags'',
                            Key ''mysql_auth_vault_addr'']
          = py_at cc [Key ''gateway'', Key ''extraFlags'', Key ''mysql_auth_vault_addr'']"
      by (simp only: py_at.simps p1 p2 ebind_Inr)
    from this v
    show "py_at (PDict out) [Key ''cells'', Idx i, Key ''gateway'', Key ''extraFlags'',
                            Key ''mysql_auth_vault_addr'']
           = Inr (PStr ''https://vault-dre.None.yelpcorp.com:8200'')"
      by (rule trans)
  qed
  show ?thesis
    by (intro exI conjI) (rule g, rule 1, rule 2, rule 3, rule 4, rule 5, rule 6, rule 7)
qed

theorem absent_scalar_field_placeholder_witness:
  "\<exists>out w'. generate_vitess_instance_config
        [(''cells'', PList [PStr ''cellA'', PStr ''cellB'']),
         (''keyspaces'', PList
            [PDict [(''keyspace'', PStr ''orders''), (''cluster'', PStr ''main1'')]])]
        \<lparr>port_mappings_table = [(''main1'', [(''primary'', 3306)])],
         port_mapping_queries = 0\<rparr> = (Inr out, w')
      \<and> py_getitem out ''cpus'' = Inr PNone
      \<and> py_getitem out ''mem'' = Inr PNone
      \<and> py_getitem out ''deploy_group'' = Inr PNone
      \<and> py_at out [Key ''globalLockserver'', Key ''external'', Key ''address''] = Inr PNone
      \<and> py_at out [Key ''vtadmin'', Key ''extraLabels'', Key ''paasta.yelp.com/pool'']
          = Inr PNone
      \<and> py_at out [Key ''vtadmin'', Key ''extraLabels'', Key ''paasta.yelp.com/cluster'']
          = Inr PNone
      \<and> py_at out [Key ''cells'', Idx 0, Key ''gateway'', Key ''extraFlags'',
                    Key ''mysql_auth_vault_addr'']
          = Inr (PStr ''https://vault-dre.None.yelpcorp.com:8200'')
      \<and> py_at out [Key ''cells'', Idx 1, Key ''gateway'', Key ''extraFlags'',
                    Key ''mysql_auth_vault_addr'']
          = Inr (PStr ''https://vault-dre.None.yelpcorp.com:8200'')"
proof -
  let ?cfg = "[(''cells'', PList [PStr ''cellA'', PStr ''cellB'']),
         (''keyspaces'', PList
            [PDict [(''keyspace'', PStr ''orders''), (''cluster'', PStr ''main1'')]])]"
  let ?w = "\<lparr>port_mappings_table = [(''main1'', [(''primary'', 3306)])],
             port_mapping_queries = 0\<rparr>"
  have a: "dict_get ?cfg ''cells'' = PList [PStr ''cellA'', PStr ''cellB'']"
    by (simp add: dict_get_def)
  have b: "dict_get ?cfg ''keyspaces''
           = PList [PDict [(''keyspace'', PStr ''orders''), (''cluster'', PStr ''main1'')]]"
    by (simp add: dict_get_def)
  have d: "map descriptor [PDict [(''keyspace'', PStr ''orders''), (''cluster'', PStr ''main1'')]]
           = map Some [(PStr ''orders'', ''main1'')]"
    by (simp add: descriptor_def py_getitem_def)
  have m: "\<forall>(n, c) \<in> set [(PStr ''orders'', ''main1'')].
             map_of (port_mappings_table ?w) c \<noteq> None"
    by simp
  have n: "map_of ?cfg ''cpus'' = None" "map_of ?cfg ''mem'' = None"
    "map_of ?cfg ''deploy_group'' = None" "map_of ?cfg ''zk_address'' = None"
    "map_of ?cfg ''paasta_pool'' = None" "map_of ?cfg ''paasta_cluster'' = None"
    "map_of ?cfg ''region'' = None"
    by simp_all
  have l: "(0::nat) < length [PStr ''cellA'', PStr ''cellB'']"
    "(1::nat) < length [PStr ''cellA'', PStr ''cellB'']"
    by simp_all
  have "\<exists>out w'. generate_vitess_instance_config ?cfg ?w = (Inr out, w')
      \<and> py_getitem out ''cpus'' = Inr PNone
      \<and> py_getitem out ''mem'' = Inr PNone
      \<and> py_getitem out ''deploy_group'' = Inr PNone
      \<and> py_at out [Key ''globalLockserver'', Key ''external'', Key ''address''] = Inr PNone
      \<and> py_at out [Key ''vtadmin'', Key ''extraLabels'', Key ''paasta.yelp.com/pool'']
          = Inr PNone
      \<and> py_at out [Key ''vtadmin'', Key ''extraLabels'', Key ''paasta.yelp.com/cluster'']
          = Inr PNone
      \<and> (\<forall>i < length [PStr ''cellA'', PStr ''cellB''].
            py_at out [Key ''cells'', Idx i, Key ''gateway'', Key ''extraFlags'',
                       Key ''mysql_auth_vault_addr'']
              = Inr (PStr ''https://vault-dre.None.yelpcorp.com:8200''))"
    using absent_scalar_field_placeholder[OF a b d m] by (simp only: n simp_thms)
  then show ?thesis using l by (elim exE conjE) (intro exI conjI, (assumption | blast)+)
qed

end
